theory Spec2Isabelle
  imports Main
begin

section \<open>The schema (shared/schema.ts)\<close>

text \<open>
  Every table of the schema is a list of rows in storage order; a row is a record with
  one field per column. Columns declared \<open>notNull()\<close> hold a value, the other columns
  (those of \<open>users\<close>) hold an optional value, \<open>None\<close> being SQL \<open>NULL\<close>.
  A \<open>timestamp\<close> is a clock reading, an integer number of ticks.

  The model covers payloads whose values have the type of their column: a request body
  or an update object is a record with one optional field per column of the table
  (\<open>None\<close>: the key is absent). Keys that are no column of the table, values of another
  type, and the loss of the database connection are outside the model. A \<open>string\<close> is
  the list of the bytes of the text.
\<close>

type_synonym timestamp = int

record User =
  u_id :: string
  u_email :: "string option"
  u_firstName :: "string option"
  u_lastName :: "string option"
  u_profileImageUrl :: "string option"
  u_createdAt :: "timestamp option"
  u_updatedAt :: "timestamp option"

text \<open>
  \<open>UpsertUser = typeof users.$inferInsert\<close>: every key is optional. For a nullable
  column the key is absent (\<open>None\<close>), \<open>null\<close> (\<open>Some None\<close>) or a value.
\<close>

record UpsertUser =
  uu_id :: "string option"
  uu_email :: "string option option"
  uu_firstName :: "string option option"
  uu_lastName :: "string option option"
  uu_profileImageUrl :: "string option option"
  uu_createdAt :: "timestamp option option"
  uu_updatedAt :: "timestamp option option"

record Todo =
  t_id :: string
  t_userId :: string
  t_title :: string
  t_completed :: bool
  t_dayOfWeek :: int
  t_category :: string
  t_priority :: string

text \<open>\<open>InsertTodo\<close>: the insert schema without \<open>id\<close>; columns with a default are optional.\<close>

record InsertTodo =
  ti_userId :: string
  ti_title :: string
  ti_completed :: "bool option"
  ti_dayOfWeek :: int
  ti_category :: "string option"
  ti_priority :: "string option"

text \<open>
  The object that reaches \<open>.set(updates)\<close> and the body of a request, at run time: one
  optional value per column of \<open>todos\<close>. The static type \<open>Partial<InsertTodo>\<close> has no
  \<open>id\<close> key, but the handlers pass \<open>req.body\<close>, of type \<open>any\<close>, unchanged.
\<close>

record TodoFields =
  tf_id :: "string option"
  tf_userId :: "string option"
  tf_title :: "string option"
  tf_completed :: "bool option"
  tf_dayOfWeek :: "int option"
  tf_category :: "string option"
  tf_priority :: "string option"

record ScheduleItem =
  s_id :: string
  s_userId :: string
  s_title :: string
  s_time :: string
  s_dayOfWeek :: int
  s_category :: string
  s_completed :: bool

record InsertScheduleItem =
  si_userId :: string
  si_title :: string
  si_time :: string
  si_dayOfWeek :: int
  si_category :: "string option"
  si_completed :: "bool option"

record ScheduleItemFields =
  sf_id :: "string option"
  sf_userId :: "string option"
  sf_title :: "string option"
  sf_time :: "string option"
  sf_dayOfWeek :: "int option"
  sf_category :: "string option"
  sf_completed :: "bool option"

record Assignment =
  a_id :: string
  a_userId :: string
  a_title :: string
  a_dueDate :: string
  a_completed :: bool
  a_category :: string

record InsertAssignment =
  ai_userId :: string
  ai_title :: string
  ai_dueDate :: string
  ai_completed :: "bool option"
  ai_category :: "string option"

record AssignmentFields =
  af_id :: "string option"
  af_userId :: "string option"
  af_title :: "string option"
  af_dueDate :: "string option"
  af_completed :: "bool option"
  af_category :: "string option"

record QuickTask =
  q_id :: string
  q_userId :: string
  q_title :: string
  q_completed :: bool
  q_priority :: string

record InsertQuickTask =
  qi_userId :: string
  qi_title :: string
  qi_completed :: "bool option"
  qi_priority :: "string option"

record QuickTaskFields =
  qf_id :: "string option"
  qf_userId :: "string option"
  qf_title :: "string option"
  qf_completed :: "bool option"
  qf_priority :: "string option"

text \<open>The database: the five tables the storage layer reads and writes.\<close>

record db =
  users :: "User list"
  todos :: "Todo list"
  scheduleItems :: "ScheduleItem list"
  assignments :: "Assignment list"
  quickTasks :: "QuickTask list"

text \<open>\<open>TaskCategory\<close>, the tags of the colour coding.\<close>

definition TaskCategory :: "string list" where
  "TaskCategory = [''science'', ''math'', ''english'', ''break'', ''social'',
     ''biology'', ''pe'', ''music'', ''free'', ''other'']"


section \<open>The query layer (drizzle-orm over PostgreSQL)\<close>

text \<open>
  The storage methods are written against drizzle-orm and PostgreSQL; what the model
  takes from them:
  \<^item> \<open>select().from(t).where(p)\<close> returns the rows of \<open>t\<close> that satisfy \<open>p\<close>. No
    query has an \<open>ORDER BY\<close>; the model returns them in storage order.
  \<^item> \<open>insert(t).values(v)\<close> appends one row. A key that \<open>v\<close> leaves out takes the
    default of its column; \<open>gen_random_uuid()\<close>, the default of every \<open>id\<close>, is an
    input of the model.
  \<^item> \<open>update(t).set(u).where(p)\<close> writes, in every row that satisfies \<open>p\<close>, each key
    of \<open>u\<close> that is a column of \<open>t\<close>, the column \<open>id\<close> included, and no other
    column; when \<open>u\<close> has no key, \<open>set\<close> throws \<open>No values to set\<close>.
  \<^item> \<open>returning()\<close> yields the rows written or deleted.
  \<^item> \<open>update\<close> stores the new version of a row behind the rows it leaves alone:
    SQL fixes no order for a \<open>select\<close> without \<open>ORDER BY\<close>, and PostgreSQL reads
    the new version of an updated row after the others.
  \<^item> The constraints of the schema are enforced: primary keys, the foreign key of
    \<open>user_id\<close>, the unique \<open>email\<close>.
  \<^item> A value that its column cannot hold is rejected: an integer outside the range of
    \<open>integer\<close>, a text with the character U+0000. The model checks the values that an
    insert or an update takes from a request body. A \<open>user_id\<close> is checked by the
    foreign key, which admits the ids of stored users only; the ids and user ids in a
    \<open>where\<close> clause are those of stored rows and of the session.
  A statement that the database rejects raises an exception in the storage method;
  the rows are then as they were before the statement.
\<close>

datatype error =
    NoValuesToSet          \<comment> \<open>\<open>.set({})\<close>: drizzle throws before any SQL is sent\<close>
  | DataException          \<comment> \<open>a value that its column cannot hold (SQLSTATE class 22)\<close>
  | UniqueViolation        \<comment> \<open>primary key, or the unique \<open>email\<close>\<close>
  | ForeignKeyViolation    \<comment> \<open>\<open>user_id\<close> references no row of \<open>users\<close>\<close>

definition withDefault :: "'a option \<Rightarrow> 'a \<Rightarrow> 'a" where
  "withDefault v d = (case v of None \<Rightarrow> d | Some x \<Rightarrow> x)"

definition int4 :: "int \<Rightarrow> bool" where
  "int4 n \<longleftrightarrow> - 2147483648 \<le> n \<and> n \<le> 2147483647"

definition int4Opt :: "int option \<Rightarrow> bool" where
  "int4Opt v = (case v of None \<Rightarrow> True | Some n \<Rightarrow> int4 n)"

text \<open>A text that a \<open>text\<close> or \<open>varchar\<close> column holds: one without the character U+0000.\<close>

definition storable :: "string \<Rightarrow> bool" where
  "storable s \<longleftrightarrow> CHR 0x00 \<notin> set s"

definition storableOpt :: "string option \<Rightarrow> bool" where
  "storableOpt v = (case v of None \<Rightarrow> True | Some s \<Rightarrow> storable s)"

text \<open>\<open>and(eq(table.id, id), eq(table.userId, userId))\<close>\<close>

definition scoped :: "('r \<Rightarrow> string) \<Rightarrow> ('r \<Rightarrow> string) \<Rightarrow> string \<Rightarrow> string \<Rightarrow> 'r \<Rightarrow> bool" where
  "scoped rid owner i u r \<longleftrightarrow> rid r = i \<and> owner r = u"

text \<open>\<open>const [row] = await ...\<close>: the first row of the result, \<open>undefined\<close> if there is none.\<close>

definition firstRow :: "'r list \<Rightarrow> 'r option" where
  "firstRow rows = (case rows of [] \<Rightarrow> None | r # _ \<Rightarrow> Some r)"

text \<open>
  \<open>insert(table).values(row).returning()\<close> for a table with a primary key \<open>id\<close> and a
  foreign key \<open>user_id\<close> into \<open>users\<close>; \<open>uids\<close> are the ids of \<open>users\<close>.
\<close>

definition insertRow ::
  "('r \<Rightarrow> string) \<Rightarrow> ('r \<Rightarrow> string) \<Rightarrow> string list \<Rightarrow> 'r \<Rightarrow> 'r list \<Rightarrow> error + 'r list" where
  "insertRow rid owner uids row rows =
     (if rid row \<in> set (map rid rows) then Inl UniqueViolation
      else if owner row \<notin> set uids then Inl ForeignKeyViolation
      else Inr (rows @ [row]))"

text \<open>
  \<open>update(table).set(..).where(p).returning()\<close>: \<open>f\<close> is the effect of the \<open>SET\<close> clause
  on one row. The primary key and the foreign key are checked for the rows whose key
  changes. The result is the list of updated rows and the new table, in which the
  updated rows follow the untouched ones.
\<close>

definition updateRows ::
  "('r \<Rightarrow> string) \<Rightarrow> ('r \<Rightarrow> string) \<Rightarrow> string list \<Rightarrow> ('r \<Rightarrow> bool) \<Rightarrow> ('r \<Rightarrow> 'r) \<Rightarrow> 'r list
     \<Rightarrow> error + ('r list \<times> 'r list)" where
  "updateRows rid owner uids p f rows =
     (let hit = filter p rows in
      if \<exists>r \<in> set hit. rid (f r) \<noteq> rid r \<and> rid (f r) \<in> set (map rid rows)
        then Inl UniqueViolation
      else if \<exists>r \<in> set hit. owner (f r) \<noteq> owner r \<and> owner (f r) \<notin> set uids
        then Inl ForeignKeyViolation
      else Inr (map f hit, filter (\<lambda>r. \<not> p r) rows @ map f hit))"

text \<open>\<open>delete(table).where(p).returning()\<close>: the deleted rows and the new table.\<close>

definition deleteRows :: "('r \<Rightarrow> bool) \<Rightarrow> 'r list \<Rightarrow> 'r list \<times> 'r list" where
  "deleteRows p rows = (filter p rows, filter (\<lambda>r. \<not> p r) rows)"


section \<open>The storage layer (class DatabaseStorage)\<close>

subsection \<open>Todos\<close>

definition getTodos :: "string \<Rightarrow> db \<Rightarrow> Todo list" where
  "getTodos userId d = filter (\<lambda>r. t_userId r = userId) (todos d)"

definition getTodo :: "string \<Rightarrow> string \<Rightarrow> db \<Rightarrow> Todo option" where
  "getTodo i userId d = firstRow (filter (scoped t_id t_userId i userId) (todos d))"

text \<open>
  The row built from an insert record: \<open>g\<close> is the value that \<open>gen_random_uuid()\<close>
  yields for this insert, the other defaults are those of the schema.
\<close>

definition newTodo :: "string \<Rightarrow> InsertTodo \<Rightarrow> Todo" where
  "newTodo g todo =
     \<lparr>t_id = g, t_userId = ti_userId todo, t_title = ti_title todo,
      t_completed = withDefault (ti_completed todo) False,
      t_dayOfWeek = ti_dayOfWeek todo,
      t_category = withDefault (ti_category todo) ''other'',
      t_priority = withDefault (ti_priority todo) ''medium''\<rparr>"

definition storableTodo :: "InsertTodo \<Rightarrow> bool" where
  "storableTodo todo \<longleftrightarrow>
     storable (ti_title todo) \<and> int4 (ti_dayOfWeek todo) \<and>
     storableOpt (ti_category todo) \<and> storableOpt (ti_priority todo)"

definition createTodo :: "string \<Rightarrow> InsertTodo \<Rightarrow> db \<Rightarrow> (error + Todo) \<times> db" where
  "createTodo g todo d =
     (if \<not> storableTodo todo then (Inl DataException, d)
      else case insertRow t_id t_userId (map u_id (users d)) (newTodo g todo) (todos d) of
        Inl e \<Rightarrow> (Inl e, d)
      | Inr rows \<Rightarrow> (Inr (newTodo g todo), d\<lparr>todos := rows\<rparr>))"

definition noTodoFields :: "TodoFields \<Rightarrow> bool" where
  "noTodoFields u \<longleftrightarrow>
     tf_id u = None \<and> tf_userId u = None \<and> tf_title u = None \<and> tf_completed u = None \<and>
     tf_dayOfWeek u = None \<and> tf_category u = None \<and> tf_priority u = None"

definition setTodo :: "TodoFields \<Rightarrow> Todo \<Rightarrow> Todo" where
  "setTodo u r =
     \<lparr>t_id = withDefault (tf_id u) (t_id r),
      t_userId = withDefault (tf_userId u) (t_userId r),
      t_title = withDefault (tf_title u) (t_title r),
      t_completed = withDefault (tf_completed u) (t_completed r),
      t_dayOfWeek = withDefault (tf_dayOfWeek u) (t_dayOfWeek r),
      t_category = withDefault (tf_category u) (t_category r),
      t_priority = withDefault (tf_priority u) (t_priority r)\<rparr>"

definition storableTodoFields :: "TodoFields \<Rightarrow> bool" where
  "storableTodoFields u \<longleftrightarrow>
     storableOpt (tf_id u) \<and> storableOpt (tf_title u) \<and> int4Opt (tf_dayOfWeek u) \<and>
     storableOpt (tf_category u) \<and> storableOpt (tf_priority u)"

definition updateTodo :: "string \<Rightarrow> string \<Rightarrow> TodoFields \<Rightarrow> db \<Rightarrow> (error + Todo option) \<times> db" where
  "updateTodo i userId updates d =
     (if noTodoFields updates then (Inl NoValuesToSet, d)
      else if \<not> storableTodoFields updates then (Inl DataException, d)
      else case updateRows t_id t_userId (map u_id (users d)) (scoped t_id t_userId i userId)
                  (setTodo updates) (todos d) of
        Inl e \<Rightarrow> (Inl e, d)
      | Inr (updated, rows) \<Rightarrow> (Inr (firstRow updated), d\<lparr>todos := rows\<rparr>))"

definition deleteTodo :: "string \<Rightarrow> string \<Rightarrow> db \<Rightarrow> bool \<times> db" where
  "deleteTodo i userId d =
     (case deleteRows (scoped t_id t_userId i userId) (todos d) of
        (result, rows) \<Rightarrow> (length result > 0, d\<lparr>todos := rows\<rparr>))"


subsection \<open>Schedule items\<close>

definition getScheduleItems :: "string \<Rightarrow> db \<Rightarrow> ScheduleItem list" where
  "getScheduleItems userId d = filter (\<lambda>r. s_userId r = userId) (scheduleItems d)"

definition getScheduleItem :: "string \<Rightarrow> string \<Rightarrow> db \<Rightarrow> ScheduleItem option" where
  "getScheduleItem i userId d =
     firstRow (filter (scoped s_id s_userId i userId) (scheduleItems d))"

definition newScheduleItem :: "string \<Rightarrow> InsertScheduleItem \<Rightarrow> ScheduleItem" where
  "newScheduleItem g item =
     \<lparr>s_id = g, s_userId = si_userId item, s_title = si_title item, s_time = si_time item,
      s_dayOfWeek = si_dayOfWeek item,
      s_category = withDefault (si_category item) ''other'',
      s_completed = withDefault (si_completed item) False\<rparr>"

definition storableScheduleItem :: "InsertScheduleItem \<Rightarrow> bool" where
  "storableScheduleItem item \<longleftrightarrow>
     storable (si_title item) \<and> storable (si_time item) \<and> int4 (si_dayOfWeek item) \<and>
     storableOpt (si_category item)"

definition createScheduleItem ::
  "string \<Rightarrow> InsertScheduleItem \<Rightarrow> db \<Rightarrow> (error + ScheduleItem) \<times> db" where
  "createScheduleItem g item d =
     (if \<not> storableScheduleItem item then (Inl DataException, d)
      else case insertRow s_id s_userId (map u_id (users d)) (newScheduleItem g item)
                  (scheduleItems d) of
        Inl e \<Rightarrow> (Inl e, d)
      | Inr rows \<Rightarrow> (Inr (newScheduleItem g item), d\<lparr>scheduleItems := rows\<rparr>))"

definition noScheduleItemFields :: "ScheduleItemFields \<Rightarrow> bool" where
  "noScheduleItemFields u \<longleftrightarrow>
     sf_id u = None \<and> sf_userId u = None \<and> sf_title u = None \<and> sf_time u = None \<and>
     sf_dayOfWeek u = None \<and> sf_category u = None \<and> sf_completed u = None"

definition setScheduleItem :: "ScheduleItemFields \<Rightarrow> ScheduleItem \<Rightarrow> ScheduleItem" where
  "setScheduleItem u r =
     \<lparr>s_id = withDefault (sf_id u) (s_id r),
      s_userId = withDefault (sf_userId u) (s_userId r),
      s_title = withDefault (sf_title u) (s_title r),
      s_time = withDefault (sf_time u) (s_time r),
      s_dayOfWeek = withDefault (sf_dayOfWeek u) (s_dayOfWeek r),
      s_category = withDefault (sf_category u) (s_category r),
      s_completed = withDefault (sf_completed u) (s_completed r)\<rparr>"

definition storableScheduleItemFields :: "ScheduleItemFields \<Rightarrow> bool" where
  "storableScheduleItemFields u \<longleftrightarrow>
     storableOpt (sf_id u) \<and> storableOpt (sf_title u) \<and> storableOpt (sf_time u) \<and>
     int4Opt (sf_dayOfWeek u) \<and> storableOpt (sf_category u)"

definition updateScheduleItem ::
  "string \<Rightarrow> string \<Rightarrow> ScheduleItemFields \<Rightarrow> db \<Rightarrow> (error + ScheduleItem option) \<times> db" where
  "updateScheduleItem i userId updates d =
     (if noScheduleItemFields updates then (Inl NoValuesToSet, d)
      else if \<not> storableScheduleItemFields updates then (Inl DataException, d)
      else case updateRows s_id s_userId (map u_id (users d)) (scoped s_id s_userId i userId)
                  (setScheduleItem updates) (scheduleItems d) of
        Inl e \<Rightarrow> (Inl e, d)
      | Inr (updated, rows) \<Rightarrow> (Inr (firstRow updated), d\<lparr>scheduleItems := rows\<rparr>))"

definition deleteScheduleItem :: "string \<Rightarrow> string \<Rightarrow> db \<Rightarrow> bool \<times> db" where
  "deleteScheduleItem i userId d =
     (case deleteRows (scoped s_id s_userId i userId) (scheduleItems d) of
        (result, rows) \<Rightarrow> (length result > 0, d\<lparr>scheduleItems := rows\<rparr>))"

subsection \<open>Assignments\<close>

definition getAssignments :: "string \<Rightarrow> db \<Rightarrow> Assignment list" where
  "getAssignments userId d = filter (\<lambda>r. a_userId r = userId) (assignments d)"

definition getAssignment :: "string \<Rightarrow> string \<Rightarrow> db \<Rightarrow> Assignment option" where
  "getAssignment i userId d = firstRow (filter (scoped a_id a_userId i userId) (assignments d))"

definition newAssignment :: "string \<Rightarrow> InsertAssignment \<Rightarrow> Assignment" where
  "newAssignment g assignment =
     \<lparr>a_id = g, a_userId = ai_userId assignment, a_title = ai_title assignment,
      a_dueDate = ai_dueDate assignment,
      a_completed = withDefault (ai_completed assignment) False,
      a_category = withDefault (ai_category assignment) ''other''\<rparr>"

definition storableAssignment :: "InsertAssignment \<Rightarrow> bool" where
  "storableAssignment assignment \<longleftrightarrow>
     storable (ai_title assignment) \<and> storable (ai_dueDate assignment) \<and>
     storableOpt (ai_category assignment)"

definition createAssignment ::
  "string \<Rightarrow> InsertAssignment \<Rightarrow> db \<Rightarrow> (error + Assignment) \<times> db" where
  "createAssignment g assignment d =
     (if \<not> storableAssignment assignment then (Inl DataException, d)
      else case insertRow a_id a_userId (map u_id (users d)) (newAssignment g assignment)
             (assignments d) of
        Inl e \<Rightarrow> (Inl e, d)
      | Inr rows \<Rightarrow> (Inr (newAssignment g assignment), d\<lparr>assignments := rows\<rparr>))"

definition noAssignmentFields :: "AssignmentFields \<Rightarrow> bool" where
  "noAssignmentFields u \<longleftrightarrow>
     af_id u = None \<and> af_userId u = None \<and> af_title u = None \<and> af_dueDate u = None \<and>
     af_completed u = None \<and> af_category u = None"

definition setAssignment :: "AssignmentFields \<Rightarrow> Assignment \<Rightarrow> Assignment" where
  "setAssignment u r =
     \<lparr>a_id = withDefault (af_id u) (a_id r),
      a_userId = withDefault (af_userId u) (a_userId r),
      a_title = withDefault (af_title u) (a_title r),
      a_dueDate = withDefault (af_dueDate u) (a_dueDate r),
      a_completed = withDefault (af_completed u) (a_completed r),
      a_category = withDefault (af_category u) (a_category r)\<rparr>"

definition storableAssignmentFields :: "AssignmentFields \<Rightarrow> bool" where
  "storableAssignmentFields u \<longleftrightarrow>
     storableOpt (af_id u) \<and> storableOpt (af_title u) \<and> storableOpt (af_dueDate u) \<and>
     storableOpt (af_category u)"

definition updateAssignment ::
  "string \<Rightarrow> string \<Rightarrow> AssignmentFields \<Rightarrow> db \<Rightarrow> (error + Assignment option) \<times> db" where
  "updateAssignment i userId updates d =
     (if noAssignmentFields updates then (Inl NoValuesToSet, d)
      else if \<not> storableAssignmentFields updates then (Inl DataException, d)
      else case updateRows a_id a_userId (map u_id (users d)) (scoped a_id a_userId i userId)
                  (setAssignment updates) (assignments d) of
        Inl e \<Rightarrow> (Inl e, d)
      | Inr (updated, rows) \<Rightarrow> (Inr (firstRow updated), d\<lparr>assignments := rows\<rparr>))"

definition deleteAssignment :: "string \<Rightarrow> string \<Rightarrow> db \<Rightarrow> bool \<times> db" where
  "deleteAssignment i userId d =
     (case deleteRows (scoped a_id a_userId i userId) (assignments d) of
        (result, rows) \<Rightarrow> (length result > 0, d\<lparr>assignments := rows\<rparr>))"

subsection \<open>Quick tasks\<close>

definition getQuickTasks :: "string \<Rightarrow> db \<Rightarrow> QuickTask list" where
  "getQuickTasks userId d = filter (\<lambda>r. q_userId r = userId) (quickTasks d)"

definition getQuickTask :: "string \<Rightarrow> string \<Rightarrow> db \<Rightarrow> QuickTask option" where
  "getQuickTask i userId d = firstRow (filter (scoped q_id q_userId i userId) (quickTasks d))"

definition newQuickTask :: "string \<Rightarrow> InsertQuickTask \<Rightarrow> QuickTask" where
  "newQuickTask g task =
     \<lparr>q_id = g, q_userId = qi_userId task, q_title = qi_title task,
      q_completed = withDefault (qi_completed task) False,
      q_priority = withDefault (qi_priority task) ''medium''\<rparr>"

definition storableQuickTask :: "InsertQuickTask \<Rightarrow> bool" where
  "storableQuickTask task \<longleftrightarrow> storable (qi_title task) \<and> storableOpt (qi_priority task)"

definition createQuickTask :: "string \<Rightarrow> InsertQuickTask \<Rightarrow> db \<Rightarrow> (error + QuickTask) \<times> db" where
  "createQuickTask g task d =
     (if \<not> storableQuickTask task then (Inl DataException, d)
      else case insertRow q_id q_userId (map u_id (users d)) (newQuickTask g task) (quickTasks d) of
        Inl e \<Rightarrow> (Inl e, d)
      | Inr rows \<Rightarrow> (Inr (newQuickTask g task), d\<lparr>quickTasks := rows\<rparr>))"

definition noQuickTaskFields :: "QuickTaskFields \<Rightarrow> bool" where
  "noQuickTaskFields u \<longleftrightarrow>
     qf_id u = None \<and> qf_userId u = None \<and> qf_title u = None \<and> qf_completed u = None \<and>
     qf_priority u = None"

definition setQuickTask :: "QuickTaskFields \<Rightarrow> QuickTask \<Rightarrow> QuickTask" where
  "setQuickTask u r =
     \<lparr>q_id = withDefault (qf_id u) (q_id r),
      q_userId = withDefault (qf_userId u) (q_userId r),
      q_title = withDefault (qf_title u) (q_title r),
      q_completed = withDefault (qf_completed u) (q_completed r),
      q_priority = withDefault (qf_priority u) (q_priority r)\<rparr>"

definition storableQuickTaskFields :: "QuickTaskFields \<Rightarrow> bool" where
  "storableQuickTaskFields u \<longleftrightarrow>
     storableOpt (qf_id u) \<and> storableOpt (qf_title u) \<and> storableOpt (qf_priority u)"

definition updateQuickTask ::
  "string \<Rightarrow> string \<Rightarrow> QuickTaskFields \<Rightarrow> db \<Rightarrow> (error + QuickTask option) \<times> db" where
  "updateQuickTask i userId updates d =
     (if noQuickTaskFields updates then (Inl NoValuesToSet, d)
      else if \<not> storableQuickTaskFields updates then (Inl DataException, d)
      else case updateRows q_id q_userId (map u_id (users d)) (scoped q_id q_userId i userId)
                  (setQuickTask updates) (quickTasks d) of
        Inl e \<Rightarrow> (Inl e, d)
      | Inr (updated, rows) \<Rightarrow> (Inr (firstRow updated), d\<lparr>quickTasks := rows\<rparr>))"

definition deleteQuickTask :: "string \<Rightarrow> string \<Rightarrow> db \<Rightarrow> bool \<times> db" where
  "deleteQuickTask i userId d =
     (case deleteRows (scoped q_id q_userId i userId) (quickTasks d) of
        (result, rows) \<Rightarrow> (length result > 0, d\<lparr>quickTasks := rows\<rparr>))"

subsection \<open>Users\<close>

definition getUser :: "string \<Rightarrow> db \<Rightarrow> User option" where
  "getUser i d = firstRow (filter (\<lambda>u. u_id u = i) (users d))"

text \<open>The unique index on \<open>email\<close>: \<open>NULL\<close> never conflicts.\<close>

definition emailTaken :: "string option \<Rightarrow> string \<Rightarrow> User list \<Rightarrow> bool" where
  "emailTaken e i us \<longleftrightarrow>
     (case e of None \<Rightarrow> False
      | Some m \<Rightarrow> \<exists>u \<in> set us. u_id u \<noteq> i \<and> u_email u = Some m)"

text \<open>
  \<open>insert(users).values(userData).onConflictDoUpdate({target: users.id,
  set: {...userData, updatedAt: new Date()}}).returning()\<close>. The readings are inputs:
  \<open>g\<close> is what \<open>gen_random_uuid()\<close> yields, \<open>dbNow\<close> what the database's \<open>now()\<close>
  yields (the column default), \<open>jsNow\<close> what \<open>new Date()\<close> yields in the server.
  Without a row of that id the values are inserted, absent keys taking the column
  default; with one, the keys present in \<open>set\<close> are written to it. \<open>userData\<close> is
  built from the claims of the identity provider, not from a request body. Users are
  read by id only, so the place of a row in the table is never observed.
\<close>

definition upsertUser ::
  "string \<Rightarrow> timestamp \<Rightarrow> timestamp \<Rightarrow> UpsertUser \<Rightarrow> db \<Rightarrow> (error + User) \<times> db" where
  "upsertUser g dbNow jsNow userData d =
     (let i = withDefault (uu_id userData) g in
      case firstRow (filter (\<lambda>u. u_id u = i) (users d)) of
        None \<Rightarrow>
          (let row = \<lparr>u_id = i,
                 u_email = withDefault (uu_email userData) None,
                 u_firstName = withDefault (uu_firstName userData) None,
                 u_lastName = withDefault (uu_lastName userData) None,
                 u_profileImageUrl = withDefault (uu_profileImageUrl userData) None,
                 u_createdAt = withDefault (uu_createdAt userData) (Some dbNow),
                 u_updatedAt = withDefault (uu_updatedAt userData) (Some dbNow)\<rparr>
           in if emailTaken (u_email row) i (users d) then (Inl UniqueViolation, d)
              else (Inr row, d\<lparr>users := users d @ [row]\<rparr>))
      | Some old \<Rightarrow>
          (let row = \<lparr>u_id = i,
                 u_email = withDefault (uu_email userData) (u_email old),
                 u_firstName = withDefault (uu_firstName userData) (u_firstName old),
                 u_lastName = withDefault (uu_lastName userData) (u_lastName old),
                 u_profileImageUrl =
                   withDefault (uu_profileImageUrl userData) (u_profileImageUrl old),
                 u_createdAt = withDefault (uu_createdAt userData) (u_createdAt old),
                 u_updatedAt = Some jsNow\<rparr>
           in if emailTaken (u_email row) i (users d) then (Inl UniqueViolation, d)
              else (Inr row, d\<lparr>users := map (\<lambda>u. if u_id u = i then row else u) (users d)\<rparr>)))"


subsection \<open>Calendar dates (the JavaScript \<open>Date\<close> in local time)\<close>

text \<open>
  \<open>seedUserData\<close> reads the local calendar fields of a \<open>Date\<close> only; the month counts
  from 0, as \<open>getMonth()\<close> does.
\<close>

record Date =
  getFullYear :: nat
  getMonth :: nat
  getDate :: nat

definition leapYear :: "nat \<Rightarrow> bool" where
  "leapYear y \<longleftrightarrow> y mod 4 = 0 \<and> (y mod 100 \<noteq> 0 \<or> y mod 400 = 0)"

definition daysInMonth :: "nat \<Rightarrow> nat \<Rightarrow> nat" where
  "daysInMonth y m =
     (if m = 1 then (if leapYear y then 29 else 28)
      else if m = 3 \<or> m = 5 \<or> m = 8 \<or> m = 10 then 30 else 31)"

definition nextMonth :: "Date \<Rightarrow> Date" where
  "nextMonth t =
     (if getMonth t < 11 then t\<lparr>getMonth := getMonth t + 1\<rparr>
      else t\<lparr>getFullYear := getFullYear t + 1, getMonth := 0\<rparr>)"

text \<open>
  \<open>date.setDate(n)\<close> for \<open>n \<ge> 1\<close>: a day past the end of the month runs over into the
  following months. (\<open>seedUserData\<close> calls it with \<open>getDate() + daysFromNow\<close>, at least 1.)
\<close>

function setDate :: "Date \<Rightarrow> nat \<Rightarrow> Date" where
  "setDate t n =
     (if n \<le> daysInMonth (getFullYear t) (getMonth t) then t\<lparr>getDate := n\<rparr>
      else setDate (nextMonth t) (n - daysInMonth (getFullYear t) (getMonth t)))"
  by pat_completeness auto
termination
  by (relation "measure (\<lambda>(t, n). n)") (auto simp: daysInMonth_def)

text \<open>\<open>String(n)\<close> for a natural number, and \<open>s.padStart(2, '0')\<close>.\<close>

definition digit :: "nat \<Rightarrow> char" where
  "digit n = ''0123456789'' ! n"

fun String :: "nat \<Rightarrow> string" where
  "String n = (if n < 10 then [digit n] else String (n div 10) @ [digit (n mod 10)])"

definition padStart2 :: "string \<Rightarrow> string" where
  "padStart2 s = replicate (2 - length s) (CHR ''0'') @ s"

definition getDateString :: "Date \<Rightarrow> nat \<Rightarrow> string" where
  "getDateString today daysFromNow =
     (let date = setDate today (getDate today + daysFromNow)
      in String (getFullYear date) @ ''-'' @ padStart2 (String (getMonth date + 1)) @ ''-''
           @ padStart2 (String (getDate date)))"

subsection \<open>Seeding\<close>

text \<open>The default rows, each still without its \<open>userId\<close>.\<close>

definition seedTodo :: "string \<Rightarrow> bool \<Rightarrow> int \<Rightarrow> string \<Rightarrow> string \<Rightarrow> string \<Rightarrow> InsertTodo" where
  "seedTodo title completed dayOfWeek category priority userId =
     \<lparr>ti_userId = userId, ti_title = title, ti_completed = Some completed,
      ti_dayOfWeek = dayOfWeek, ti_category = Some category, ti_priority = Some priority\<rparr>"

definition defaultTodos :: "(string \<Rightarrow> InsertTodo) list" where
  "defaultTodos =
     [seedTodo ''Wake up at 6:30AM'' False 1 ''daily'' ''high'',
      seedTodo ''Morning Routine'' False 1 ''daily'' ''medium'',
      seedTodo ''Pack Bag'' True 1 ''daily'' ''medium'',
      seedTodo ''Check Planner'' False 1 ''daily'' ''medium'',
      seedTodo ''Attend Classes'' False 1 ''daily'' ''high'',
      seedTodo ''Take Notes'' False 1 ''daily'' ''medium'',
      seedTodo ''Lunch'' False 1 ''daily'' ''low'',
      seedTodo ''Homework'' False 1 ''daily'' ''high'',
      seedTodo ''Complete Math Worksheets'' False 1 ''monthly'' ''high'',
      seedTodo ''Study for Midterms'' False 1 ''monthly'' ''high'',
      seedTodo ''Work on English Essay'' False 1 ''monthly'' ''medium'']"

definition seedScheduleItem ::
  "string \<Rightarrow> string \<Rightarrow> int \<Rightarrow> string \<Rightarrow> bool \<Rightarrow> string \<Rightarrow> InsertScheduleItem" where
  "seedScheduleItem title time dayOfWeek category completed userId =
     \<lparr>si_userId = userId, si_title = title, si_time = time, si_dayOfWeek = dayOfWeek,
      si_category = Some category, si_completed = Some completed\<rparr>"

definition defaultSchedule :: "(string \<Rightarrow> InsertScheduleItem) list" where
  "defaultSchedule =
     [seedScheduleItem ''Science'' ''7:30'' 1 ''science'' False,
      seedScheduleItem ''Math'' ''9:55'' 1 ''math'' True,
      seedScheduleItem ''Break'' ''11:00'' 1 ''break'' True,
      seedScheduleItem ''Social'' ''11:55'' 1 ''social'' False,
      seedScheduleItem ''Music'' ''12:50'' 1 ''music'' False,
      seedScheduleItem ''Free time'' ''7:30'' 2 ''free'' False,
      seedScheduleItem ''PE'' ''9:55'' 2 ''pe'' False,
      seedScheduleItem ''Break'' ''11:00'' 2 ''break'' False,
      seedScheduleItem ''Biology'' ''11:55'' 2 ''biology'' False,
      seedScheduleItem ''English'' ''12:50'' 2 ''english'' False,
      seedScheduleItem ''Biology'' ''7:30'' 3 ''biology'' False,
      seedScheduleItem ''Social'' ''9:55'' 3 ''social'' False,
      seedScheduleItem ''Break'' ''11:00'' 3 ''break'' False,
      seedScheduleItem ''PE'' ''11:55'' 3 ''pe'' False,
      seedScheduleItem ''Math'' ''12:50'' 3 ''math'' False,
      seedScheduleItem ''Science'' ''7:30'' 4 ''science'' False,
      seedScheduleItem ''Math'' ''9:55'' 4 ''math'' False,
      seedScheduleItem ''Break'' ''11:00'' 4 ''break'' False,
      seedScheduleItem ''Social'' ''11:55'' 4 ''social'' False,
      seedScheduleItem ''Biology'' ''12:50'' 4 ''biology'' False]"

definition seedAssignment :: "string \<Rightarrow> string \<Rightarrow> bool \<Rightarrow> string \<Rightarrow> string \<Rightarrow> InsertAssignment" where
  "seedAssignment title dueDate completed category userId =
     \<lparr>ai_userId = userId, ai_title = title, ai_dueDate = dueDate,
      ai_completed = Some completed, ai_category = Some category\<rparr>"

definition defaultAssignments :: "Date \<Rightarrow> (string \<Rightarrow> InsertAssignment) list" where
  "defaultAssignments today =
     [seedAssignment ''Math Homework'' (getDateString today 5) False ''math'',
      seedAssignment ''Science Project'' (getDateString today 10) False ''science'',
      seedAssignment ''English Essay'' (getDateString today 3) False ''english'']"

text \<open>
  \<open>for (const x of xs) { await this.create({...x, userId}) }\<close>: the loop stops at the
  first insert that throws and keeps the rows written before it. \<open>gen k\<close> is the value
  of \<open>gen_random_uuid()\<close> for the \<open>k\<close>-th insert of the call.
\<close>

fun createEach ::
  "(string \<Rightarrow> 'i \<Rightarrow> db \<Rightarrow> (error + 'r) \<times> db) \<Rightarrow> (nat \<Rightarrow> string) \<Rightarrow> nat \<Rightarrow> string
     \<Rightarrow> (string \<Rightarrow> 'i) list \<Rightarrow> db \<Rightarrow> (error + unit) \<times> db" where
  "createEach create gen k userId [] d = (Inr (), d)"
| "createEach create gen k userId (x # xs) d =
     (case create (gen k) (x userId) d of
        (Inl e, d') \<Rightarrow> (Inl e, d')
      | (Inr _, d') \<Rightarrow> createEach create gen (Suc k) userId xs d')"

definition seedUserData :: "(nat \<Rightarrow> string) \<Rightarrow> Date \<Rightarrow> string \<Rightarrow> db \<Rightarrow> (error + unit) \<times> db" where
  "seedUserData gen today userId d =
     (let existingTodos = getTodos userId d in
      if length existingTodos > 0 then (Inr (), d)
      else case createEach createTodo gen 0 userId defaultTodos d of
        (Inl e, d1) \<Rightarrow> (Inl e, d1)
      | (Inr _, d1) \<Rightarrow>
         (case createEach createScheduleItem gen (length defaultTodos) userId defaultSchedule d1 of
            (Inl e, d2) \<Rightarrow> (Inl e, d2)
          | (Inr _, d2) \<Rightarrow>
              createEach createAssignment gen (length defaultTodos + length defaultSchedule)
                userId (defaultAssignments today) d2))"


section \<open>The request handlers (registerRoutes)\<close>

text \<open>
  A handler runs behind \<open>isAuthenticated\<close>; \<open>userId\<close> is \<open>req.user.claims.sub\<close>.
  The response is the status with the entity, or with an error message.
\<close>

datatype 'a response =
    Json nat 'a
  | Failure nat string
  | Invalid nat "string list"

text \<open>
  \<open>insertTodoSchema.safeParse\<close> (and its three siblings): the required keys must be
  present, the \<open>id\<close> key is no part of the schema and is dropped. On failure the
  result names the missing keys.
\<close>

definition missing :: "(string \<times> bool) list \<Rightarrow> string list" where
  "missing ks = map fst (filter (\<lambda>k. \<not> snd k) ks)"

definition insertTodoSchema :: "TodoFields \<Rightarrow> string list + InsertTodo" where
  "insertTodoSchema x =
     (case (tf_userId x, tf_title x, tf_dayOfWeek x) of
        (Some u, Some t, Some n) \<Rightarrow>
          Inr \<lparr>ti_userId = u, ti_title = t, ti_completed = tf_completed x, ti_dayOfWeek = n,
               ti_category = tf_category x, ti_priority = tf_priority x\<rparr>
      | _ \<Rightarrow> Inl (missing [(''userId'', tf_userId x \<noteq> None), (''title'', tf_title x \<noteq> None),
                 (''dayOfWeek'', tf_dayOfWeek x \<noteq> None)]))"

definition insertScheduleItemSchema :: "ScheduleItemFields \<Rightarrow> string list + InsertScheduleItem" where
  "insertScheduleItemSchema x =
     (case (sf_userId x, sf_title x, sf_time x, sf_dayOfWeek x) of
        (Some u, Some t, Some h, Some n) \<Rightarrow>
          Inr \<lparr>si_userId = u, si_title = t, si_time = h, si_dayOfWeek = n,
               si_category = sf_category x, si_completed = sf_completed x\<rparr>
      | _ \<Rightarrow> Inl (missing [(''userId'', sf_userId x \<noteq> None), (''title'', sf_title x \<noteq> None),
                 (''time'', sf_time x \<noteq> None), (''dayOfWeek'', sf_dayOfWeek x \<noteq> None)]))"

definition insertAssignmentSchema :: "AssignmentFields \<Rightarrow> string list + InsertAssignment" where
  "insertAssignmentSchema x =
     (case (af_userId x, af_title x, af_dueDate x) of
        (Some u, Some t, Some due) \<Rightarrow>
          Inr \<lparr>ai_userId = u, ai_title = t, ai_dueDate = due, ai_completed = af_completed x,
               ai_category = af_category x\<rparr>
      | _ \<Rightarrow> Inl (missing [(''userId'', af_userId x \<noteq> None), (''title'', af_title x \<noteq> None),
                 (''dueDate'', af_dueDate x \<noteq> None)]))"

definition insertQuickTaskSchema :: "QuickTaskFields \<Rightarrow> string list + InsertQuickTask" where
  "insertQuickTaskSchema x =
     (case (qf_userId x, qf_title x) of
        (Some u, Some t) \<Rightarrow>
          Inr \<lparr>qi_userId = u, qi_title = t, qi_completed = qf_completed x,
               qi_priority = qf_priority x\<rparr>
      | _ \<Rightarrow> Inl (missing [(''userId'', qf_userId x \<noteq> None), (''title'', qf_title x \<noteq> None)]))"

text \<open>\<open>POST\<close>: the body is parsed with the caller's \<open>userId\<close> spread over it.\<close>

definition postTodo :: "string \<Rightarrow> string \<Rightarrow> TodoFields \<Rightarrow> db \<Rightarrow> Todo response \<times> db" where
  "postTodo g userId body d =
     (case insertTodoSchema (body\<lparr>tf_userId := Some userId\<rparr>) of
        Inl issues \<Rightarrow> (Invalid 400 issues, d)
      | Inr data \<Rightarrow>
          (case createTodo g data d of
             (Inl e, d') \<Rightarrow> (Failure 500 ''Failed to create todo'', d')
           | (Inr todo, d') \<Rightarrow> (Json 201 todo, d')))"

definition postScheduleItem ::
  "string \<Rightarrow> string \<Rightarrow> ScheduleItemFields \<Rightarrow> db \<Rightarrow> ScheduleItem response \<times> db" where
  "postScheduleItem g userId body d =
     (case insertScheduleItemSchema (body\<lparr>sf_userId := Some userId\<rparr>) of
        Inl issues \<Rightarrow> (Invalid 400 issues, d)
      | Inr data \<Rightarrow>
          (case createScheduleItem g data d of
             (Inl e, d') \<Rightarrow> (Failure 500 ''Failed to create schedule item'', d')
           | (Inr item, d') \<Rightarrow> (Json 201 item, d')))"

definition postAssignment ::
  "string \<Rightarrow> string \<Rightarrow> AssignmentFields \<Rightarrow> db \<Rightarrow> Assignment response \<times> db" where
  "postAssignment g userId body d =
     (case insertAssignmentSchema (body\<lparr>af_userId := Some userId\<rparr>) of
        Inl issues \<Rightarrow> (Invalid 400 issues, d)
      | Inr data \<Rightarrow>
          (case createAssignment g data d of
             (Inl e, d') \<Rightarrow> (Failure 500 ''Failed to create assignment'', d')
           | (Inr assignment, d') \<Rightarrow> (Json 201 assignment, d')))"

definition postQuickTask ::
  "string \<Rightarrow> string \<Rightarrow> QuickTaskFields \<Rightarrow> db \<Rightarrow> QuickTask response \<times> db" where
  "postQuickTask g userId body d =
     (case insertQuickTaskSchema (body\<lparr>qf_userId := Some userId\<rparr>) of
        Inl issues \<Rightarrow> (Invalid 400 issues, d)
      | Inr data \<Rightarrow>
          (case createQuickTask g data d of
             (Inl e, d') \<Rightarrow> (Failure 500 ''Failed to create quick task'', d')
           | (Inr task, d') \<Rightarrow> (Json 201 task, d')))"

text \<open>\<open>PATCH\<close>: \<open>updates = req.body\<close> goes to the storage method as it is.\<close>

definition patchTodo :: "string \<Rightarrow> string \<Rightarrow> TodoFields \<Rightarrow> db \<Rightarrow> Todo response \<times> db" where
  "patchTodo userId i body d =
     (case updateTodo i userId body d of
        (Inl e, d') \<Rightarrow> (Failure 500 ''Failed to update todo'', d')
      | (Inr None, d') \<Rightarrow> (Failure 404 ''Todo not found'', d')
      | (Inr (Some todo), d') \<Rightarrow> (Json 200 todo, d'))"

definition patchScheduleItem ::
  "string \<Rightarrow> string \<Rightarrow> ScheduleItemFields \<Rightarrow> db \<Rightarrow> ScheduleItem response \<times> db" where
  "patchScheduleItem userId i body d =
     (case updateScheduleItem i userId body d of
        (Inl e, d') \<Rightarrow> (Failure 500 ''Failed to update schedule item'', d')
      | (Inr None, d') \<Rightarrow> (Failure 404 ''Schedule item not found'', d')
      | (Inr (Some item), d') \<Rightarrow> (Json 200 item, d'))"

definition patchAssignment ::
  "string \<Rightarrow> string \<Rightarrow> AssignmentFields \<Rightarrow> db \<Rightarrow> Assignment response \<times> db" where
  "patchAssignment userId i body d =
     (case updateAssignment i userId body d of
        (Inl e, d') \<Rightarrow> (Failure 500 ''Failed to update assignment'', d')
      | (Inr None, d') \<Rightarrow> (Failure 404 ''Assignment not found'', d')
      | (Inr (Some assignment), d') \<Rightarrow> (Json 200 assignment, d'))"

definition patchQuickTask ::
  "string \<Rightarrow> string \<Rightarrow> QuickTaskFields \<Rightarrow> db \<Rightarrow> QuickTask response \<times> db" where
  "patchQuickTask userId i body d =
     (case updateQuickTask i userId body d of
        (Inl e, d') \<Rightarrow> (Failure 500 ''Failed to update quick task'', d')
      | (Inr None, d') \<Rightarrow> (Failure 404 ''Quick task not found'', d')
      | (Inr (Some task), d') \<Rightarrow> (Json 200 task, d'))"


section \<open>Partial updates as the specification words them\<close>

text \<open>
  ``Changes only the supplied fields'': \<open>r'\<close> holds the value of \<open>u\<close> in every field
  that \<open>u\<close> supplies and the value of \<open>r\<close> in every other field.
\<close>

definition changesOnly :: "'a option \<Rightarrow> 'a \<Rightarrow> 'a \<Rightarrow> bool" where
  "changesOnly supplied old new \<longleftrightarrow>
     (case supplied of None \<Rightarrow> new = old | Some v \<Rightarrow> new = v)"






section \<open>Example states\<close>

text \<open>A database with two users; every row belongs to the first.\<close>

definition exampleDb :: db where
  "exampleDb =
     \<lparr>users =
        [\<lparr>u_id = ''alice'', u_email = Some ''alice@example.org'', u_firstName = Some ''Alice'',
          u_lastName = None, u_profileImageUrl = None, u_createdAt = Some 1000,
          u_updatedAt = Some 1000\<rparr>,
         \<lparr>u_id = ''bob'', u_email = None, u_firstName = None, u_lastName = None,
          u_profileImageUrl = None, u_createdAt = Some 2000, u_updatedAt = Some 2000\<rparr>],
      todos =
        [\<lparr>t_id = ''t1'', t_userId = ''alice'', t_title = ''Read'', t_completed = False,
          t_dayOfWeek = 1, t_category = ''other'', t_priority = ''medium''\<rparr>],
      scheduleItems =
        [\<lparr>s_id = ''s1'', s_userId = ''alice'', s_title = ''Math'', s_time = ''9:55'',
          s_dayOfWeek = 1, s_category = ''math'', s_completed = False\<rparr>],
      assignments =
        [\<lparr>a_id = ''a1'', a_userId = ''alice'', a_title = ''Essay'', a_dueDate = ''2024-03-01'',
          a_completed = False, a_category = ''english''\<rparr>],
      quickTasks =
        [\<lparr>q_id = ''q1'', q_userId = ''alice'', q_title = ''Call'', q_completed = False,
          q_priority = ''low''\<rparr>]\<rparr>"


text \<open>The body \<open>{}\<close> of a request on todos.\<close>

definition noFields :: TodoFields where
  "noFields = \<lparr>tf_id = None, tf_userId = None, tf_title = None, tf_completed = None,
     tf_dayOfWeek = None, tf_category = None, tf_priority = None\<rparr>"


text \<open>The creation record \<open>{title: "Read", dayOfWeek: 1}\<close> for the first user.\<close>

definition readTodo :: InsertTodo where
  "readTodo = \<lparr>ti_userId = ''alice'', ti_title = ''Read'', ti_completed = None,
     ti_dayOfWeek = 1, ti_category = None, ti_priority = None\<rparr>"




text \<open>The bodies \<open>{"userId": "bob"}\<close> and \<open>{"id": "t9"}\<close> of a request on todos.\<close>

definition ownerOnly :: TodoFields where
  "ownerOnly = noFields\<lparr>tf_userId := Some ''bob''\<rparr>"

definition idOnly :: TodoFields where
  "idOnly = noFields\<lparr>tf_id := Some ''t9''\<rparr>"


text \<open>
  A run of \<open>gen_random_uuid()\<close> (the \<open>k\<close>-th value is \<open>seed-k\<close>) and a day at the end of
  a February in a leap year (the month counts from 0).
\<close>

definition seedGen :: "nat \<Rightarrow> string" where
  "seedGen k = ''seed-'' @ String k"

definition leapDay :: Date where
  "leapDay = \<lparr>getFullYear = 2024, getMonth = 1, getDate = 27\<rparr>"


text \<open>The body \<open>{"title": "Nap", "dayOfWeek": 1, "category": "daily"}\<close>.\<close>

definition dailyBody :: TodoFields where
  "dailyBody = noFields\<lparr>tf_title := Some ''Nap'', tf_dayOfWeek := Some 1,
     tf_category := Some ''daily''\<rparr>"


text \<open>Two upserts of the first user that differ in the first name.\<close>

definition aliceFirst :: UpsertUser where
  "aliceFirst = \<lparr>uu_id = Some ''alice'', uu_email = Some (Some ''alice@example.org''),
     uu_firstName = Some (Some ''Alice''), uu_lastName = Some None,
     uu_profileImageUrl = Some None, uu_createdAt = None, uu_updatedAt = None\<rparr>"

definition aliceSecond :: UpsertUser where
  "aliceSecond = aliceFirst\<lparr>uu_firstName := Some (Some ''Alicia'')\<rparr>"







text \<open>
  An upsert of the first user with the last name \<open>Smith\<close>, and the upsert
  \<open>{id: "alice", firstName: "Alicia"}\<close>, which carries no other key.
\<close>

definition smithFirst :: UpsertUser where
  "smithFirst = aliceFirst\<lparr>uu_lastName := Some (Some ''Smith'')\<rparr>"

definition aliciaOnly :: UpsertUser where
  "aliciaOnly = \<lparr>uu_id = Some ''alice'', uu_email = None,
     uu_firstName = Some (Some ''Alicia''), uu_lastName = None, uu_profileImageUrl = None,
     uu_createdAt = None, uu_updatedAt = None\<rparr>"


section \<open>Lemmas on the query layer\<close>

lemma firstRow_filter_scoped_other:
  assumes "distinct (map rid rows)" and "e \<in> set rows" and "u \<noteq> owner e"
  shows "firstRow (filter (scoped rid owner (rid e) u) rows) = None"
proof -
  have "filter (scoped rid owner (rid e) u) rows = []"
  proof (rule ccontr)
    assume "filter (scoped rid owner (rid e) u) rows \<noteq> []"
    then obtain r where r: "r \<in> set rows" "rid r = rid e" "owner r = u"
      by (auto simp: filter_empty_conv scoped_def)
    from assms(1) r(1,2) assms(2) have "r = e"
      by (meson distinct_map inj_onD)
    with r(3) assms(3) show False by simp
  qed
  then show ?thesis by (simp add: firstRow_def)
qed

lemma filter_scoped_self:
  assumes "distinct (map rid rows)" and "e \<in> set rows"
  shows "filter (scoped rid owner (rid e) (owner e)) rows = [e]"
  using assms
proof (induction rows)
  case Nil
  then show ?case by simp
next
  case (Cons r rows)
  show ?case
  proof (cases "r = e")
    case True
    with Cons.prems have "rid e \<notin> rid ` set rows" by simp
    then have "\<forall>x \<in> set rows. rid x \<noteq> rid e" by (metis imageI)
    then have "filter (scoped rid owner (rid e) (owner e)) rows = []"
      by (auto simp: filter_empty_conv scoped_def)
    moreover have "scoped rid owner (rid e) (owner e) e" by (simp add: scoped_def)
    ultimately show ?thesis using True by simp
  next
    case False
    with Cons.prems have e: "e \<in> set rows" and d: "distinct (map rid rows)" by auto
    from Cons.prems e have "rid r \<noteq> rid e" by auto
    then have "\<not> scoped rid owner (rid e) (owner e) r" by (simp add: scoped_def)
    with Cons.IH [OF d e] show ?thesis by simp
  qed
qed

lemma firstRow_filter_Some:
  "firstRow (filter p rows) = Some r \<Longrightarrow> r \<in> set rows \<and> p r"
proof -
  assume a: "firstRow (filter p rows) = Some r"
  then obtain rest where "filter p rows = r # rest"
    by (auto simp: firstRow_def split: list.splits)
  then have "r \<in> set (filter p rows)" by simp
  then show ?thesis by simp
qed

lemma getOne_generic:
  assumes "distinct (map rid rows)" and "e \<in> set rows"
  shows "firstRow (filter (scoped rid owner (rid e) b) rows) = (if b = owner e then Some e else None)"
  using firstRow_filter_scoped_other [OF assms, of b owner] filter_scoped_self [OF assms, of owner]
  by (simp add: firstRow_def)

lemma getOne_only_generic:
  "firstRow (filter (scoped rid owner i u) rows) = Some r \<Longrightarrow> r \<in> set rows \<and> rid r = i \<and> owner r = u"
  using firstRow_filter_Some [of "scoped rid owner i u" rows r] by (simp add: scoped_def)


section \<open>Scoped lookup\<close>

text \<open>
  C1. On tables that satisfy their primary key, the lookup of an entity's id under a
  user id returns the entity when that user owns it and reports absence for every
  other user id; whatever a lookup returns is a row of the table with the id and the
  owner that were asked for. This holds for todos, schedule items, assignments and
  quick tasks.
\<close>

theorem getOne_scoped_by_id_and_owner:
  assumes "distinct (map t_id (todos d))" and "distinct (map s_id (scheduleItems d))"
    and "distinct (map a_id (assignments d))" and "distinct (map q_id (quickTasks d))"
  shows "(\<forall>e \<in> set (todos d). \<forall>b. getTodo (t_id e) b d = (if b = t_userId e then Some e else None))
    \<and> (\<forall>e \<in> set (scheduleItems d). \<forall>b.
          getScheduleItem (s_id e) b d = (if b = s_userId e then Some e else None))
    \<and> (\<forall>e \<in> set (assignments d). \<forall>b.
          getAssignment (a_id e) b d = (if b = a_userId e then Some e else None))
    \<and> (\<forall>e \<in> set (quickTasks d). \<forall>b.
          getQuickTask (q_id e) b d = (if b = q_userId e then Some e else None))
    \<and> (\<forall>i u r. getTodo i u d = Some r \<longrightarrow> r \<in> set (todos d) \<and> t_id r = i \<and> t_userId r = u)
    \<and> (\<forall>i u r. getScheduleItem i u d = Some r \<longrightarrow>
          r \<in> set (scheduleItems d) \<and> s_id r = i \<and> s_userId r = u)
    \<and> (\<forall>i u r. getAssignment i u d = Some r \<longrightarrow>
          r \<in> set (assignments d) \<and> a_id r = i \<and> a_userId r = u)
    \<and> (\<forall>i u r. getQuickTask i u d = Some r \<longrightarrow>
          r \<in> set (quickTasks d) \<and> q_id r = i \<and> q_userId r = u)"
proof -
  have 1: "\<forall>e \<in> set (todos d). \<forall>b. getTodo (t_id e) b d = (if b = t_userId e then Some e else None)"
    unfolding getTodo_def
    using getOne_generic [where owner = t_userId, OF assms(1)] by blast
  have 2: "\<forall>e \<in> set (scheduleItems d). \<forall>b.
          getScheduleItem (s_id e) b d = (if b = s_userId e then Some e else None)"
    unfolding getScheduleItem_def
    using getOne_generic [where owner = s_userId, OF assms(2)] by blast
  have 3: "\<forall>e \<in> set (assignments d). \<forall>b.
          getAssignment (a_id e) b d = (if b = a_userId e then Some e else None)"
    unfolding getAssignment_def
    using getOne_generic [where owner = a_userId, OF assms(3)] by blast
  have 4: "\<forall>e \<in> set (quickTasks d). \<forall>b.
          getQuickTask (q_id e) b d = (if b = q_userId e then Some e else None)"
    unfolding getQuickTask_def
    using getOne_generic [where owner = q_userId, OF assms(4)] by blast
  have 5: "\<forall>i u r. getTodo i u d = Some r \<longrightarrow> r \<in> set (todos d) \<and> t_id r = i \<and> t_userId r = u"
    unfolding getTodo_def
    using getOne_only_generic [where rid = t_id and owner = t_userId and rows = "todos d"] by blast
  have 6: "\<forall>i u r. getScheduleItem i u d = Some r \<longrightarrow>
          r \<in> set (scheduleItems d) \<and> s_id r = i \<and> s_userId r = u"
    unfolding getScheduleItem_def
    using getOne_only_generic [where rid = s_id and owner = s_userId and rows = "scheduleItems d"] by blast
  have 7: "\<forall>i u r. getAssignment i u d = Some r \<longrightarrow>
          r \<in> set (assignments d) \<and> a_id r = i \<and> a_userId r = u"
    unfolding getAssignment_def
    using getOne_only_generic [where rid = a_id and owner = a_userId and rows = "assignments d"] by blast
  have 8: "\<forall>i u r. getQuickTask i u d = Some r \<longrightarrow>
          r \<in> set (quickTasks d) \<and> q_id r = i \<and> q_userId r = u"
    unfolding getQuickTask_def
    using getOne_only_generic [where rid = q_id and owner = q_userId and rows = "quickTasks d"] by blast
  from 1 2 3 4 5 6 7 8 show ?thesis by blast
qed

theorem getOne_scoped_by_id_and_owner_witness:
  "distinct (map t_id (todos exampleDb)) \<and> distinct (map s_id (scheduleItems exampleDb))
   \<and> distinct (map a_id (assignments exampleDb)) \<and> distinct (map q_id (quickTasks exampleDb))
   \<and> getTodo ''t1'' ''bob'' exampleDb = None
   \<and> getTodo ''t1'' ''alice'' exampleDb \<noteq> None
   \<and> getQuickTask ''q1'' ''bob'' exampleDb = None"
proof -
  let ?t = "\<lparr>t_id = ''t1'', t_userId = ''alice'', t_title = ''Read'', t_completed = False,
          t_dayOfWeek = 1, t_category = ''other'', t_priority = ''medium''\<rparr>"
  let ?q = "\<lparr>q_id = ''q1'', q_userId = ''alice'', q_title = ''Call'', q_completed = False,
          q_priority = ''low''\<rparr>"
  have h: "distinct (map t_id (todos exampleDb))" "distinct (map s_id (scheduleItems exampleDb))"
    "distinct (map a_id (assignments exampleDb))" "distinct (map q_id (quickTasks exampleDb))"
    by (simp_all add: exampleDb_def)
  have t: "?t \<in> set (todos exampleDb)" and q: "?q \<in> set (quickTasks exampleDb)"
    by (simp_all add: exampleDb_def)
  note inst = getOne_scoped_by_id_and_owner [OF h]
  from inst t have "\<forall>b. getTodo (t_id ?t) b exampleDb = (if b = t_userId ?t then Some ?t else None)"
    by blast
  then have 1: "getTodo ''t1'' ''bob'' exampleDb = None" and 2: "getTodo ''t1'' ''alice'' exampleDb \<noteq> None"
    by simp_all
  from inst q have "\<forall>b. getQuickTask (q_id ?q) b exampleDb = (if b = q_userId ?q then Some ?q else None)"
    by blast
  then have 3: "getQuickTask ''q1'' ''bob'' exampleDb = None"
    by simp
  from h 1 2 3 show ?thesis by blast
qed

section \<open>Deletion\<close>

lemma deleteRows_result:
  "length (fst (deleteRows p rows)) > 0 \<longleftrightarrow> (\<exists>r \<in> set rows. p r)"
  by (simp add: deleteRows_def filter_empty_conv)

lemma deleteRows_again:
  "fst (deleteRows p (snd (deleteRows p rows))) = []"
  by (simp add: deleteRows_def)

lemma deleteTodo_eq:
  "deleteTodo i u d =
     ((\<exists>r \<in> set (todos d). t_id r = i \<and> t_userId r = u),
      d\<lparr>todos := filter (\<lambda>r. \<not> (t_id r = i \<and> t_userId r = u)) (todos d)\<rparr>)"
  by (simp add: deleteTodo_def deleteRows_def filter_empty_conv scoped_def)

lemma deleteScheduleItem_eq:
  "deleteScheduleItem i u d =
     ((\<exists>r \<in> set (scheduleItems d). s_id r = i \<and> s_userId r = u),
      d\<lparr>scheduleItems := filter (\<lambda>r. \<not> (s_id r = i \<and> s_userId r = u)) (scheduleItems d)\<rparr>)"
  by (simp add: deleteScheduleItem_def deleteRows_def filter_empty_conv scoped_def)

lemma deleteAssignment_eq:
  "deleteAssignment i u d =
     ((\<exists>r \<in> set (assignments d). a_id r = i \<and> a_userId r = u),
      d\<lparr>assignments := filter (\<lambda>r. \<not> (a_id r = i \<and> a_userId r = u)) (assignments d)\<rparr>)"
  by (simp add: deleteAssignment_def deleteRows_def filter_empty_conv scoped_def)

lemma deleteQuickTask_eq:
  "deleteQuickTask i u d =
     ((\<exists>r \<in> set (quickTasks d). q_id r = i \<and> q_userId r = u),
      d\<lparr>quickTasks := filter (\<lambda>r. \<not> (q_id r = i \<and> q_userId r = u)) (quickTasks d)\<rparr>)"
  by (simp add: deleteQuickTask_def deleteRows_def filter_empty_conv scoped_def)

text \<open>
  C6. For every row of a table, the first delete with the row's id and owner returns
  true and a second delete with the same arguments returns false. In general a delete
  returns true exactly when some row of the table has that id and that owner, and it
  removes exactly those rows; all other rows and tables stay as they were.
\<close>

theorem delete_true_exactly_once:
  "(\<forall>e \<in> set (todos d).
       fst (deleteTodo (t_id e) (t_userId e) d) \<and>
       \<not> fst (deleteTodo (t_id e) (t_userId e) (snd (deleteTodo (t_id e) (t_userId e) d))))
   \<and> (\<forall>e \<in> set (scheduleItems d).
       fst (deleteScheduleItem (s_id e) (s_userId e) d) \<and>
       \<not> fst (deleteScheduleItem (s_id e) (s_userId e)
              (snd (deleteScheduleItem (s_id e) (s_userId e) d))))
   \<and> (\<forall>e \<in> set (assignments d).
       fst (deleteAssignment (a_id e) (a_userId e) d) \<and>
       \<not> fst (deleteAssignment (a_id e) (a_userId e)
              (snd (deleteAssignment (a_id e) (a_userId e) d))))
   \<and> (\<forall>e \<in> set (quickTasks d).
       fst (deleteQuickTask (q_id e) (q_userId e) d) \<and>
       \<not> fst (deleteQuickTask (q_id e) (q_userId e)
              (snd (deleteQuickTask (q_id e) (q_userId e) d))))
   \<and> deleteTodo i u d =
       ((\<exists>r \<in> set (todos d). t_id r = i \<and> t_userId r = u),
        d\<lparr>todos := filter (\<lambda>r. \<not> (t_id r = i \<and> t_userId r = u)) (todos d)\<rparr>)
   \<and> deleteScheduleItem i u d =
       ((\<exists>r \<in> set (scheduleItems d). s_id r = i \<and> s_userId r = u),
        d\<lparr>scheduleItems :=
             filter (\<lambda>r. \<not> (s_id r = i \<and> s_userId r = u)) (scheduleItems d)\<rparr>)
   \<and> deleteAssignment i u d =
       ((\<exists>r \<in> set (assignments d). a_id r = i \<and> a_userId r = u),
        d\<lparr>assignments := filter (\<lambda>r. \<not> (a_id r = i \<and> a_userId r = u)) (assignments d)\<rparr>)
   \<and> deleteQuickTask i u d =
       ((\<exists>r \<in> set (quickTasks d). q_id r = i \<and> q_userId r = u),
        d\<lparr>quickTasks := filter (\<lambda>r. \<not> (q_id r = i \<and> q_userId r = u)) (quickTasks d)\<rparr>)"
proof -
  have 1: "\<forall>e \<in> set (todos d).
       fst (deleteTodo (t_id e) (t_userId e) d) \<and>
       \<not> fst (deleteTodo (t_id e) (t_userId e) (snd (deleteTodo (t_id e) (t_userId e) d)))"
    by (auto simp: deleteTodo_eq)
  have 2: "\<forall>e \<in> set (scheduleItems d).
       fst (deleteScheduleItem (s_id e) (s_userId e) d) \<and>
       \<not> fst (deleteScheduleItem (s_id e) (s_userId e)
              (snd (deleteScheduleItem (s_id e) (s_userId e) d)))"
    by (auto simp: deleteScheduleItem_eq)
  have 3: "\<forall>e \<in> set (assignments d).
       fst (deleteAssignment (a_id e) (a_userId e) d) \<and>
       \<not> fst (deleteAssignment (a_id e) (a_userId e)
              (snd (deleteAssignment (a_id e) (a_userId e) d)))"
    by (auto simp: deleteAssignment_eq)
  have 4: "\<forall>e \<in> set (quickTasks d).
       fst (deleteQuickTask (q_id e) (q_userId e) d) \<and>
       \<not> fst (deleteQuickTask (q_id e) (q_userId e)
              (snd (deleteQuickTask (q_id e) (q_userId e) d)))"
    by (auto simp: deleteQuickTask_eq)
  show ?thesis
    using 1 2 3 4 deleteTodo_eq [of i u d] deleteScheduleItem_eq [of i u d]
      deleteAssignment_eq [of i u d] deleteQuickTask_eq [of i u d]
    by (intro conjI) assumption+
qed

theorem delete_true_exactly_once_witness:
  "fst (deleteTodo ''t1'' ''alice'' exampleDb)
   \<and> \<not> fst (deleteTodo ''t1'' ''alice'' (snd (deleteTodo ''t1'' ''alice'' exampleDb)))
   \<and> \<not> fst (deleteTodo ''t1'' ''bob'' exampleDb)
   \<and> todos (snd (deleteTodo ''t1'' ''alice'' exampleDb)) = []
   \<and> todos (snd (deleteTodo ''t1'' ''bob'' exampleDb)) = todos exampleDb"
proof -
  let ?t = "\<lparr>t_id = ''t1'', t_userId = ''alice'', t_title = ''Read'', t_completed = False,
          t_dayOfWeek = 1, t_category = ''other'', t_priority = ''medium''\<rparr>"
  have t: "?t \<in> set (todos exampleDb)"
    by (simp add: exampleDb_def)
  from delete_true_exactly_once [of exampleDb] t
  have "fst (deleteTodo (t_id ?t) (t_userId ?t) exampleDb) \<and>
       \<not> fst (deleteTodo (t_id ?t) (t_userId ?t) (snd (deleteTodo (t_id ?t) (t_userId ?t) exampleDb)))"
    by blast
  then have 1: "fst (deleteTodo ''t1'' ''alice'' exampleDb)
   \<and> \<not> fst (deleteTodo ''t1'' ''alice'' (snd (deleteTodo ''t1'' ''alice'' exampleDb)))"
    by simp
  have a: "deleteTodo ''t1'' ''alice'' exampleDb =
       ((\<exists>r \<in> set (todos exampleDb). t_id r = ''t1'' \<and> t_userId r = ''alice''),
        exampleDb\<lparr>todos := filter (\<lambda>r. \<not> (t_id r = ''t1'' \<and> t_userId r = ''alice'')) (todos exampleDb)\<rparr>)"
    using delete_true_exactly_once [of exampleDb "''t1''" "''alice''"] by blast
  have b: "deleteTodo ''t1'' ''bob'' exampleDb =
       ((\<exists>r \<in> set (todos exampleDb). t_id r = ''t1'' \<and> t_userId r = ''bob''),
        exampleDb\<lparr>todos := filter (\<lambda>r. \<not> (t_id r = ''t1'' \<and> t_userId r = ''bob'')) (todos exampleDb)\<rparr>)"
    using delete_true_exactly_once [of exampleDb "''t1''" "''bob''"] by blast
  have 2: "\<not> fst (deleteTodo ''t1'' ''bob'' exampleDb)"
    unfolding b by (simp add: exampleDb_def)
  have 3: "todos (snd (deleteTodo ''t1'' ''alice'' exampleDb)) = []"
    unfolding a by (simp add: exampleDb_def)
  have 4: "todos (snd (deleteTodo ''t1'' ''bob'' exampleDb)) = todos exampleDb"
    unfolding b by (simp add: exampleDb_def)
  from 1 2 3 4 show ?thesis by blast
qed

section \<open>Updates without values\<close>

text \<open>
  C10. A partial update whose object has no field throws \<open>No values to set\<close> for
  every id, user id and state: the storage method neither returns the row nor reports
  absence, the tables are untouched, and the \<open>PATCH\<close> handler answers with status 500
  and its generic message, not with 200 or 404. This holds for all four entity kinds.
\<close>

theorem empty_update_throws:
  "(noTodoFields u1 \<longrightarrow>
      updateTodo i userId u1 d = (Inl NoValuesToSet, d) \<and>
      patchTodo userId i u1 d = (Failure 500 ''Failed to update todo'', d))
   \<and> (noScheduleItemFields u2 \<longrightarrow>
      updateScheduleItem i userId u2 d = (Inl NoValuesToSet, d) \<and>
      patchScheduleItem userId i u2 d = (Failure 500 ''Failed to update schedule item'', d))
   \<and> (noAssignmentFields u3 \<longrightarrow>
      updateAssignment i userId u3 d = (Inl NoValuesToSet, d) \<and>
      patchAssignment userId i u3 d = (Failure 500 ''Failed to update assignment'', d))
   \<and> (noQuickTaskFields u4 \<longrightarrow>
      updateQuickTask i userId u4 d = (Inl NoValuesToSet, d) \<and>
      patchQuickTask userId i u4 d = (Failure 500 ''Failed to update quick task'', d))"
proof (intro conjI impI)
  assume "noTodoFields u1"
  then show "updateTodo i userId u1 d = (Inl NoValuesToSet, d)"
    by (simp add: updateTodo_def)
  then show "patchTodo userId i u1 d = (Failure 500 ''Failed to update todo'', d)"
    by (simp add: patchTodo_def)
next
  assume "noScheduleItemFields u2"
  then show "updateScheduleItem i userId u2 d = (Inl NoValuesToSet, d)"
    by (simp add: updateScheduleItem_def)
  then show "patchScheduleItem userId i u2 d = (Failure 500 ''Failed to update schedule item'', d)"
    by (simp add: patchScheduleItem_def)
next
  assume "noAssignmentFields u3"
  then show "updateAssignment i userId u3 d = (Inl NoValuesToSet, d)"
    by (simp add: updateAssignment_def)
  then show "patchAssignment userId i u3 d = (Failure 500 ''Failed to update assignment'', d)"
    by (simp add: patchAssignment_def)
next
  assume "noQuickTaskFields u4"
  then show "updateQuickTask i userId u4 d = (Inl NoValuesToSet, d)"
    by (simp add: updateQuickTask_def)
  then show "patchQuickTask userId i u4 d = (Failure 500 ''Failed to update quick task'', d)"
    by (simp add: patchQuickTask_def)
qed

theorem empty_update_throws_witness:
  "noTodoFields noFields
   \<and> updateTodo ''t1'' ''alice'' noFields exampleDb = (Inl NoValuesToSet, exampleDb)
   \<and> patchTodo ''alice'' ''t1'' noFields exampleDb
       = (Failure 500 ''Failed to update todo'', exampleDb)"
proof -
  have h: "noTodoFields noFields"
    by (simp add: noTodoFields_def noFields_def)
  from empty_update_throws [of noFields "''t1''" "''alice''" exampleDb] h
  show ?thesis by blast
qed

section \<open>Creation\<close>

lemma insertRow_Inr:
  "insertRow rid owner uids row rows = Inr rows' \<longleftrightarrow>
     rid row \<notin> set (map rid rows) \<and> owner row \<in> set uids \<and> rows' = rows @ [row]"
  by (auto simp: insertRow_def)


lemma createTodo_Inr:
  "createTodo g todo d = (Inr r, d') \<longleftrightarrow>
     storableTodo todo \<and> g \<notin> set (map t_id (todos d)) \<and>
     ti_userId todo \<in> set (map u_id (users d)) \<and>
     r = newTodo g todo \<and> d' = d\<lparr>todos := todos d @ [r]\<rparr>"
proof -
  have g: "t_id (newTodo g todo) = g" and u: "t_userId (newTodo g todo) = ti_userId todo"
    by (simp_all add: newTodo_def)
  show ?thesis
    unfolding createTodo_def
    by (cases "insertRow t_id t_userId (map u_id (users d)) (newTodo g todo) (todos d)")
      (use g u in \<open>auto simp: insertRow_def split: if_splits\<close>)
qed

lemma createScheduleItem_Inr:
  "createScheduleItem g item d = (Inr r, d') \<longleftrightarrow>
     storableScheduleItem item \<and> g \<notin> set (map s_id (scheduleItems d)) \<and>
     si_userId item \<in> set (map u_id (users d)) \<and>
     r = newScheduleItem g item \<and> d' = d\<lparr>scheduleItems := scheduleItems d @ [r]\<rparr>"
proof -
  have g: "s_id (newScheduleItem g item) = g"
    and u: "s_userId (newScheduleItem g item) = si_userId item"
    by (simp_all add: newScheduleItem_def)
  show ?thesis
    unfolding createScheduleItem_def
    by (cases "insertRow s_id s_userId (map u_id (users d)) (newScheduleItem g item)
                 (scheduleItems d)")
      (use g u in \<open>auto simp: insertRow_def split: if_splits\<close>)
qed

lemma createAssignment_Inr:
  "createAssignment g assignment d = (Inr r, d') \<longleftrightarrow>
     storableAssignment assignment \<and> g \<notin> set (map a_id (assignments d)) \<and>
     ai_userId assignment \<in> set (map u_id (users d)) \<and>
     r = newAssignment g assignment \<and> d' = d\<lparr>assignments := assignments d @ [r]\<rparr>"
proof -
  have g: "a_id (newAssignment g assignment) = g"
    and u: "a_userId (newAssignment g assignment) = ai_userId assignment"
    by (simp_all add: newAssignment_def)
  show ?thesis
    unfolding createAssignment_def
    by (cases "insertRow a_id a_userId (map u_id (users d)) (newAssignment g assignment)
                 (assignments d)")
      (use g u in \<open>auto simp: insertRow_def split: if_splits\<close>)
qed









section \<open>Partial updates\<close>

lemma scoped_own_iff:
  assumes "distinct (map rid rows)" and "e \<in> set rows" and "r \<in> set rows"
  shows "scoped rid owner (rid e) (owner e) r \<longleftrightarrow> r = e"
proof
  assume "scoped rid owner (rid e) (owner e) r"
  then have "rid r = rid e" by (simp add: scoped_def)
  with assms show "r = e" by (meson distinct_map inj_onD)
next
  assume "r = e"
  then show "scoped rid owner (rid e) (owner e) r" by (simp add: scoped_def)
qed


lemma updateRows_own:
  assumes "distinct (map rid rows)" and "e \<in> set rows"
  shows "updateRows rid owner uids (scoped rid owner (rid e) (owner e)) f rows =
     (if rid (f e) \<noteq> rid e \<and> rid (f e) \<in> set (map rid rows) then Inl UniqueViolation
      else if owner (f e) \<noteq> owner e \<and> owner (f e) \<notin> set uids then Inl ForeignKeyViolation
      else Inr ([f e], filter (\<lambda>r. r \<noteq> e) rows @ [f e]))"
proof -
  have hit: "filter (scoped rid owner (rid e) (owner e)) rows = [e]"
    by (rule filter_scoped_self [OF assms])
  have rest: "filter (\<lambda>r. \<not> scoped rid owner (rid e) (owner e) r) rows
      = filter (\<lambda>r. r \<noteq> e) rows"
    by (rule filter_cong) (simp_all add: scoped_own_iff [OF assms])
  show ?thesis
    unfolding updateRows_def hit rest by simp
qed


text \<open>A row that takes the place of \<open>e\<close> keeps the ids distinct when its id is that of
  \<open>e\<close> or a new one.\<close>

lemma distinct_moved:
  assumes pk: "distinct (map rid rows)" and e: "e \<in> set rows"
    and x: "rid x = rid e \<or> rid x \<notin> set (map rid rows)"
  shows "distinct (map rid (filter (\<lambda>r. r \<noteq> e) rows @ [x]))"
proof -
  have rest: "distinct (map rid (filter (\<lambda>r. r \<noteq> e) rows))"
    using pk by (rule distinct_map_filter)
  have ne: "rid r \<noteq> rid x" if r: "r \<in> set rows" "r \<noteq> e" for r
  proof
    assume eq: "rid r = rid x"
    from x show False
    proof
      assume "rid x = rid e"
      with eq have "rid r = rid e" by simp
      with pk r(1) e have "r = e" by (meson distinct_map inj_onD)
      with r(2) show False by simp
    next
      assume "rid x \<notin> set (map rid rows)"
      moreover from r(1) have "rid r \<in> set (map rid rows)" by simp
      ultimately show False using eq by simp
    qed
  qed
  have "rid x \<notin> set (map rid (filter (\<lambda>r. r \<noteq> e) rows))"
  proof
    assume "rid x \<in> set (map rid (filter (\<lambda>r. r \<noteq> e) rows))"
    then obtain r where "r \<in> set rows" "r \<noteq> e" "rid r = rid x" by auto
    with ne show False by blast
  qed
  with rest show ?thesis by simp
qed


lemma changesOnly_withDefault: "changesOnly s old (withDefault s old)"
  by (simp add: changesOnly_def withDefault_def split: option.split)





















section \<open>The owner and the id of a row under requests\<close>

text \<open>
  A \<open>POST\<close> handler spreads the caller's \<open>userId\<close> over the body and parses the
  result with a schema that has no \<open>id\<close>: the created row belongs to the caller and
  carries the generated id, whatever the body says.
\<close>

lemma postTodo_owner:
  assumes "postTodo g userId body d = (Json n r, d')"
  shows "n = 201 \<and> t_userId r = userId \<and> t_id r = g"
proof -
  from assms obtain data where p: "insertTodoSchema (body\<lparr>tf_userId := Some userId\<rparr>) = Inr data"
    and c: "createTodo g data d = (Inr r, d')" and n: "n = 201"
    by (auto simp: postTodo_def split: sum.splits prod.splits)
  from p have "ti_userId data = userId"
    by (auto simp: insertTodoSchema_def split: option.splits)
  moreover from c have "r = newTodo g data"
    by (simp add: createTodo_Inr)
  ultimately show ?thesis using n by (simp add: newTodo_def)
qed

text \<open>
  An update whose object has no \<open>id\<close> key leaves the ids of the table as they are,
  whether it succeeds or not.
\<close>

lemma updateRows_keeps_ids:
  assumes same: "\<forall>r. rid (f r) = rid r"
    and run: "updateRows rid owner uids p f rows = Inr (hit, rows')"
  shows "set (map rid rows') = set (map rid rows)"
proof -
  from run have rows': "rows' = filter (\<lambda>r. \<not> p r) rows @ map f (filter p rows)"
    by (auto simp: updateRows_def Let_def split: if_splits)
  have "map rid (map f (filter p rows)) = map rid (filter p rows)"
    using same by simp
  then have "set (map rid rows')
      = set (map rid (filter (\<lambda>r. \<not> p r) rows)) \<union> set (map rid (filter p rows))"
    unfolding rows' by (simp only: map_append set_append)
  also have "\<dots> = set (map rid rows)"
    by auto
  finally show ?thesis .
qed

lemma updateTodo_keeps_ids:
  assumes "tf_id u = None"
  shows "set (map t_id (todos (snd (updateTodo i w u d)))) = set (map t_id (todos d))"
proof -
  from assms have k: "\<forall>r. t_id (setTodo u r) = t_id r"
    by (simp add: setTodo_def withDefault_def)
  show ?thesis
  proof (cases "updateRows t_id t_userId (map u_id (users d)) (scoped t_id t_userId i w)
                  (setTodo u) (todos d)")
    case (Inl e)
    then show ?thesis by (simp add: updateTodo_def)
  next
    case (Inr res)
    obtain hit rows' where res: "res = (hit, rows')" by (cases res)
    from updateRows_keeps_ids [OF k Inr [unfolded res]]
    have "set (map t_id rows') = set (map t_id (todos d))" .
    with Inr res show ?thesis by (simp add: updateTodo_def)
  qed
qed

text \<open>
  C2, at the request \<open>PATCH /api/todos/t1\<close> of the caller \<open>alice\<close> with the body
  \<open>{"userId": "bob"}\<close>: the handler answers 200 and the row \<open>t1\<close>, which belonged to
  \<open>alice\<close>, now belongs to \<open>bob\<close>: the \<open>userId\<close> of the payload has set the owner.
\<close>

theorem patchTodo_payload_userId_sets_owner:
  "patchTodo ''alice'' ''t1'' ownerOnly exampleDb =
     (Json 200 \<lparr>t_id = ''t1'', t_userId = ''bob'', t_title = ''Read'', t_completed = False,
          t_dayOfWeek = 1, t_category = ''other'', t_priority = ''medium''\<rparr>,
      exampleDb\<lparr>todos := [\<lparr>t_id = ''t1'', t_userId = ''bob'', t_title = ''Read'',
          t_completed = False, t_dayOfWeek = 1, t_category = ''other'',
          t_priority = ''medium''\<rparr>]\<rparr>)"
  by (simp add: patchTodo_def updateTodo_def updateRows_def scoped_def setTodo_def
      noTodoFields_def storableTodoFields_def storableOpt_def storable_def int4Opt_def
      ownerOnly_def noFields_def withDefault_def firstRow_def exampleDb_def)

text \<open>
  C8, at the request \<open>PATCH /api/todos/t1\<close> of the caller \<open>alice\<close> with the body
  \<open>{"id": "t9"}\<close>: the handler answers 200 and the row that had the id \<open>t1\<close> now has
  the id \<open>t9\<close>.
\<close>

theorem patchTodo_payload_id_changes_id:
  "patchTodo ''alice'' ''t1'' idOnly exampleDb =
     (Json 200 \<lparr>t_id = ''t9'', t_userId = ''alice'', t_title = ''Read'', t_completed = False,
          t_dayOfWeek = 1, t_category = ''other'', t_priority = ''medium''\<rparr>,
      exampleDb\<lparr>todos := [\<lparr>t_id = ''t9'', t_userId = ''alice'', t_title = ''Read'',
          t_completed = False, t_dayOfWeek = 1, t_category = ''other'',
          t_priority = ''medium''\<rparr>]\<rparr>)"
  by (simp add: patchTodo_def updateTodo_def updateRows_def scoped_def setTodo_def
      noTodoFields_def storableTodoFields_def storableOpt_def storable_def int4Opt_def
      idOnly_def noFields_def withDefault_def firstRow_def exampleDb_def)

section \<open>Seeding\<close>

lemma createEach_fresh:
  fixes create :: "string \<Rightarrow> 'i \<Rightarrow> db \<Rightarrow> (error + 'r) \<times> db"
    and tbl :: "db \<Rightarrow> 'r list" and upd :: "'r list \<Rightarrow> db \<Rightarrow> db"
  assumes ok: "\<And>g x d. acc d x \<Longrightarrow> g \<notin> set (map rid (tbl d)) \<Longrightarrow>
        create g x d = (Inr (mk g x), upd (tbl d @ [mk g x]) d)"
    and tbl_upd: "\<And>rows d. tbl (upd rows d) = rows"
    and upd_upd: "\<And>r1 r2 d. upd r1 (upd r2 d) = upd r1 d"
    and upd_id: "\<And>d. upd (tbl d) d = d"
    and acc_upd: "\<And>rows d x. acc (upd rows d) x = acc d x"
    and rid_mk: "\<And>g x. rid (mk g x) = g"
    and acc: "\<forall>x \<in> set xs. acc d (x uid)"
    and dist: "distinct (map gen [k..<k + length xs])"
    and fresh: "\<forall>j \<in> set [k..<k + length xs]. gen j \<notin> set (map rid (tbl d))"
  shows "createEach create gen k uid xs d =
     (Inr (), upd (tbl d @ map (\<lambda>(j, x). mk (gen j) (x uid)) (zip [k..<k + length xs] xs)) d)"
  using acc dist fresh
proof (induction xs arbitrary: k d)
  case Nil
  show ?case by (simp add: upd_id)
next
  case (Cons x xs)
  let ?r = "mk (gen k) (x uid)"
  let ?d1 = "upd (tbl d @ [?r]) d"
  define js where "js = [Suc k..<Suc k + length xs]"
  have range: "[k..<k + length (x # xs)] = k # js"
    unfolding js_def using upt_conv_Cons [of k "k + Suc (length xs)"] by simp
  note p2 = Cons.prems(2) [unfolded range] and p3 = Cons.prems(3) [unfolded range]
  from Cons.prems(1) have a: "acc d (x uid)" by simp
  from p3 have f: "gen k \<notin> set (map rid (tbl d))" by simp
  have step: "create (gen k) (x uid) d = (Inr ?r, ?d1)"
    by (rule ok [OF a f])
  have acc1: "\<forall>y \<in> set xs. acc ?d1 (y uid)"
    using Cons.prems(1) by (simp add: acc_upd)
  have dist1: "distinct (map gen js)"
    using p2 by simp
  have fresh1: "\<forall>j \<in> set js. gen j \<notin> set (map rid (tbl ?d1))"
  proof
    fix j assume j: "j \<in> set js"
    from p2 have "gen k \<notin> gen ` set js" by simp
    with j have "gen j \<noteq> gen k"
      by (metis imageI)
    moreover from j p3 have "gen j \<notin> set (map rid (tbl d))"
      by simp
    ultimately show "gen j \<notin> set (map rid (tbl ?d1))"
      by (simp add: tbl_upd rid_mk)
  qed
  have "createEach create gen k uid (x # xs) d = createEach create gen (Suc k) uid xs ?d1"
    by (simp add: step)
  also have "\<dots> = (Inr (), upd (tbl ?d1 @ map (\<lambda>(j, x). mk (gen j) (x uid)) (zip js xs)) ?d1)"
    unfolding js_def
    by (rule Cons.IH [OF acc1 dist1 [unfolded js_def] fresh1 [unfolded js_def]])
  also have "\<dots> = (Inr (), upd (tbl d @ map (\<lambda>(j, x). mk (gen j) (x uid))
                 (zip [k..<k + length (x # xs)] (x # xs))) d)"
    unfolding range by (simp add: tbl_upd upd_upd)
  finally show ?case .
qed

lemma createTodo_ok:
  assumes "storableTodo x \<and> ti_userId x \<in> set (map u_id (users d))"
    and "g \<notin> set (map t_id (todos d))"
  shows "createTodo g x d = (Inr (newTodo g x), d\<lparr>todos := todos d @ [newTodo g x]\<rparr>)"
  using assms by (simp add: createTodo_Inr)

lemma createScheduleItem_ok:
  assumes "storableScheduleItem x \<and> si_userId x \<in> set (map u_id (users d))"
    and "g \<notin> set (map s_id (scheduleItems d))"
  shows "createScheduleItem g x d =
     (Inr (newScheduleItem g x), d\<lparr>scheduleItems := scheduleItems d @ [newScheduleItem g x]\<rparr>)"
  using assms by (simp add: createScheduleItem_Inr)

lemma createAssignment_ok:
  assumes "storableAssignment x \<and> ai_userId x \<in> set (map u_id (users d))"
    and "g \<notin> set (map a_id (assignments d))"
  shows "createAssignment g x d =
     (Inr (newAssignment g x), d\<lparr>assignments := assignments d @ [newAssignment g x]\<rparr>)"
  using assms by (simp add: createAssignment_Inr)

lemma createEach_createTodo:
  assumes "\<forall>x \<in> set xs. storableTodo (x userId) \<and>
             ti_userId (x userId) \<in> set (map u_id (users d))"
    and "distinct (map gen [k..<k + length xs])"
    and "\<forall>j \<in> set [k..<k + length xs]. gen j \<notin> set (map t_id (todos d))"
  shows "createEach createTodo gen k userId xs d =
     (Inr (), d\<lparr>todos := todos d @
        map (\<lambda>(j, x). newTodo (gen j) (x userId)) (zip [k..<k + length xs] xs)\<rparr>)"
  by (rule createEach_fresh [where create = createTodo and mk = newTodo and tbl = todos
        and upd = "\<lambda>rows d. d\<lparr>todos := rows\<rparr>" and rid = t_id
        and acc = "\<lambda>d x. storableTodo x \<and> ti_userId x \<in> set (map u_id (users d))"])
    (use assms in \<open>simp_all add: createTodo_ok newTodo_def\<close>)

lemma createEach_createScheduleItem:
  assumes "\<forall>x \<in> set xs. storableScheduleItem (x userId) \<and>
             si_userId (x userId) \<in> set (map u_id (users d))"
    and "distinct (map gen [k..<k + length xs])"
    and "\<forall>j \<in> set [k..<k + length xs]. gen j \<notin> set (map s_id (scheduleItems d))"
  shows "createEach createScheduleItem gen k userId xs d =
     (Inr (), d\<lparr>scheduleItems := scheduleItems d @
        map (\<lambda>(j, x). newScheduleItem (gen j) (x userId)) (zip [k..<k + length xs] xs)\<rparr>)"
  by (rule createEach_fresh [where create = createScheduleItem and mk = newScheduleItem
        and tbl = scheduleItems and upd = "\<lambda>rows d. d\<lparr>scheduleItems := rows\<rparr>" and rid = s_id
        and acc = "\<lambda>d x. storableScheduleItem x \<and> si_userId x \<in> set (map u_id (users d))"])
    (use assms in \<open>simp_all add: createScheduleItem_ok newScheduleItem_def\<close>)

lemma createEach_createAssignment:
  assumes "\<forall>x \<in> set xs. storableAssignment (x userId) \<and>
             ai_userId (x userId) \<in> set (map u_id (users d))"
    and "distinct (map gen [k..<k + length xs])"
    and "\<forall>j \<in> set [k..<k + length xs]. gen j \<notin> set (map a_id (assignments d))"
  shows "createEach createAssignment gen k userId xs d =
     (Inr (), d\<lparr>assignments := assignments d @
        map (\<lambda>(j, x). newAssignment (gen j) (x userId)) (zip [k..<k + length xs] xs)\<rparr>)"
  by (rule createEach_fresh [where create = createAssignment and mk = newAssignment
        and tbl = assignments and upd = "\<lambda>rows d. d\<lparr>assignments := rows\<rparr>" and rid = a_id
        and acc = "\<lambda>d x. storableAssignment x \<and> ai_userId x \<in> set (map u_id (users d))"])
    (use assms in \<open>simp_all add: createAssignment_ok newAssignment_def\<close>)

lemma defaults_length:
  "length defaultTodos = 11" "length defaultSchedule = 20" "length (defaultAssignments today) = 3"
  by (simp_all add: defaultTodos_def defaultSchedule_def defaultAssignments_def)

text \<open>The default rows hold values that their columns can hold.\<close>

lemma digit_not_nul: "n < 10 \<Longrightarrow> digit n \<noteq> CHR 0x00"
proof -
  assume "n < 10"
  then have "n \<in> {0, 1, 2, 3, 4, 5, 6, 7, 8, 9}" by auto
  then show ?thesis by (auto simp: digit_def)
qed

lemma storable_String: "storable (String n)"
proof (induction n rule: String.induct)
  case (1 n)
  show ?case
  proof (cases "n < 10")
    case True
    then have "String n = [digit n]"
      by (subst String.simps) (simp del: String.simps)
    with digit_not_nul [OF True] show ?thesis
      by (simp add: storable_def del: String.simps)
  next
    case False
    then have "String n = String (n div 10) @ [digit (n mod 10)]"
      by (subst String.simps) (simp del: String.simps)
    moreover have "digit (n mod 10) \<noteq> CHR 0x00"
      by (rule digit_not_nul) simp
    moreover from "1" [OF False] have "CHR 0x00 \<notin> set (String (n div 10))"
      by (simp add: storable_def del: String.simps)
    ultimately show ?thesis
      by (simp add: storable_def del: String.simps)
  qed
qed

lemma storable_append: "storable (s @ t) \<longleftrightarrow> storable s \<and> storable t"
  by (auto simp: storable_def)

lemma storable_padStart2: "storable s \<Longrightarrow> storable (padStart2 s)"
  by (auto simp: storable_def padStart2_def)

lemma storable_getDateString: "storable (getDateString today n)"
proof -
  define date where "date = setDate today (getDate today + n)"
  have "storable ''-''" by (simp add: storable_def)
  then have "storable (String (getFullYear date) @ ''-'' @ padStart2 (String (getMonth date + 1))
      @ ''-'' @ padStart2 (String (getDate date)))"
    by (simp only: storable_append storable_String storable_padStart2 simp_thms)
  then show ?thesis
    unfolding getDateString_def date_def Let_def .
qed

lemma defaultTodos_accepted:
  "\<forall>x \<in> set defaultTodos. storableTodo (x userId) \<and> ti_userId (x userId) = userId"
  by (simp add: defaultTodos_def seedTodo_def storableTodo_def storableOpt_def storable_def
      int4_def)

lemma defaultSchedule_accepted:
  "\<forall>x \<in> set defaultSchedule.
     storableScheduleItem (x userId) \<and> si_userId (x userId) = userId"
  by (simp add: defaultSchedule_def seedScheduleItem_def storableScheduleItem_def
      storableOpt_def storable_def int4_def)

lemma defaultAssignments_accepted:
  "\<forall>x \<in> set (defaultAssignments today).
     storableAssignment (x userId) \<and> ai_userId (x userId) = userId"
proof -
  have "storable ''Math Homework''" "storable ''Science Project''" "storable ''English Essay''"
    "storable ''math''" "storable ''science''" "storable ''english''"
    by (simp_all add: storable_def)
  then show ?thesis
    by (simp add: defaultAssignments_def seedAssignment_def storableAssignment_def
        storableOpt_def storable_getDateString)
qed

lemma seedUserData_fresh:
  assumes none: "getTodos userId d = []"
    and user: "userId \<in> set (map u_id (users d))"
    and t: "distinct (map gen [0..<11])"
      "\<forall>j \<in> set [0..<11]. gen j \<notin> set (map t_id (todos d))"
    and s: "distinct (map gen [11..<31])"
      "\<forall>j \<in> set [11..<31]. gen j \<notin> set (map s_id (scheduleItems d))"
    and a: "distinct (map gen [31..<34])"
      "\<forall>j \<in> set [31..<34]. gen j \<notin> set (map a_id (assignments d))"
  shows "seedUserData gen today userId d =
     (Inr (),
      d\<lparr>todos := todos d @
           map (\<lambda>(j, x). newTodo (gen j) (x userId)) (zip [0..<11] defaultTodos),
        scheduleItems := scheduleItems d @
           map (\<lambda>(j, x). newScheduleItem (gen j) (x userId)) (zip [11..<31] defaultSchedule),
        assignments := assignments d @
           map (\<lambda>(j, x). newAssignment (gen j) (x userId))
             (zip [31..<34] (defaultAssignments today))\<rparr>)"
proof -
  let ?d1 = "d\<lparr>todos := todos d @
           map (\<lambda>(j, x). newTodo (gen j) (x userId)) (zip [0..<11] defaultTodos)\<rparr>"
  let ?d2 = "?d1\<lparr>scheduleItems := scheduleItems d @
           map (\<lambda>(j, x). newScheduleItem (gen j) (x userId)) (zip [11..<31] defaultSchedule)\<rparr>"
  have 1: "createEach createTodo gen 0 userId defaultTodos d = (Inr (), ?d1)"
    using createEach_createTodo [of defaultTodos userId d gen 0] defaultTodos_accepted [of userId]
      user t
    by (simp add: defaults_length)
  have 2: "createEach createScheduleItem gen 11 userId defaultSchedule ?d1 = (Inr (), ?d2)"
    using createEach_createScheduleItem [of defaultSchedule userId ?d1 gen 11]
      defaultSchedule_accepted [of userId] user s
    by (simp add: defaults_length)
  have 3: "createEach createAssignment gen 31 userId (defaultAssignments today) ?d2 =
     (Inr (), ?d2\<lparr>assignments := assignments d @
           map (\<lambda>(j, x). newAssignment (gen j) (x userId))
             (zip [31..<34] (defaultAssignments today))\<rparr>)"
    using createEach_createAssignment [of "defaultAssignments today" userId ?d2 gen 31]
      defaultAssignments_accepted [of today userId] user a
    by (simp add: defaults_length)
  from none 1 2 3 show ?thesis
    by (simp add: seedUserData_def defaults_length)
qed


lemma seedGen_fresh_in_exampleDb:
  "getTodos ''bob'' exampleDb = []" "''bob'' \<in> set (map u_id (users exampleDb))"
  "distinct (map seedGen [0..<11])"
  "set (map seedGen [0..<11]) \<inter> set (map t_id (todos exampleDb)) = {}"
  "distinct (map seedGen [11..<31])"
  "set (map seedGen [11..<31]) \<inter> set (map s_id (scheduleItems exampleDb)) = {}"
  "distinct (map seedGen [31..<34])"
  "set (map seedGen [31..<34]) \<inter> set (map a_id (assignments exampleDb)) = {}"
  by code_simp+

lemma disjoint_fresh:
  assumes "set (map gen js) \<inter> S = {}"
  shows "\<forall>j \<in> set js. gen j \<notin> S"
proof
  fix j assume "j \<in> set js"
  then have "gen j \<in> set (map gen js)" by simp
  with assms show "gen j \<notin> S" by blast
qed



section \<open>The category of a todo\<close>

lemma postTodo_category:
  assumes "postTodo g userId body d = (Json n r, d')"
  shows "r \<in> set (todos d') \<and>
     t_category r = (case tf_category body of None \<Rightarrow> ''other'' | Some c \<Rightarrow> c)"
proof -
  from assms obtain data where p: "insertTodoSchema (body\<lparr>tf_userId := Some userId\<rparr>) = Inr data"
    and c: "createTodo g data d = (Inr r, d')"
    by (auto simp: postTodo_def split: sum.splits prod.splits)
  from p have "ti_category data = tf_category body"
    by (auto simp: insertTodoSchema_def split: option.splits)
  moreover from c have "r = newTodo g data" "d' = d\<lparr>todos := todos d @ [r]\<rparr>"
    by (simp_all add: createTodo_Inr)
  ultimately show ?thesis
    by (simp add: newTodo_def withDefault_def)
qed

lemma seeded_todo_categories:
  "map t_category (map (\<lambda>(j, x). newTodo (gen j) (x userId)) (zip [0..<11] defaultTodos))
     = [''daily'', ''daily'', ''daily'', ''daily'', ''daily'', ''daily'', ''daily'', ''daily'',
        ''monthly'', ''monthly'', ''monthly'']"
proof -
  have "[0..<11] = [0, 1, 2, 3, 4, 5, 6, 7, 8, 9, 10 :: nat]"
    by code_simp
  then show ?thesis
    by (simp add: defaultTodos_def seedTodo_def newTodo_def withDefault_def)
qed

text \<open>
  C9, as stated, fails: after seeding, and after a \<open>POST\<close> whose body names the
  category \<open>daily\<close>, the table holds a todo whose category is none of the tags of
  \<open>TaskCategory\<close>.
\<close>

theorem todo_category_outside_TaskCategory:
  "\<not> (\<forall>r \<in> set (todos (snd (seedUserData seedGen leapDay ''bob'' exampleDb))).
         t_category r \<in> set TaskCategory)
   \<and> \<not> (\<forall>r \<in> set (todos (snd (postTodo ''t2'' ''alice'' dailyBody exampleDb))).
         t_category r \<in> set TaskCategory)"
proof (rule conjI)
  let ?T = "map (\<lambda>(j, x). newTodo (seedGen j) (x ''bob'')) (zip [0..<11] defaultTodos)"
  note h = seedGen_fresh_in_exampleDb
  have "todos (snd (seedUserData seedGen leapDay ''bob'' exampleDb)) = todos exampleDb @ ?T"
    by (simp add: seedUserData_fresh [OF h(1,2,3) disjoint_fresh [OF h(4)] h(5)
          disjoint_fresh [OF h(6)] h(7) disjoint_fresh [OF h(8)]])
  then have "''daily'' \<in> set (map t_category
       (todos (snd (seedUserData seedGen leapDay ''bob'' exampleDb))))"
    by (simp add: seeded_todo_categories del: map_map)
  moreover have "''daily'' \<notin> set TaskCategory"
    by (simp add: TaskCategory_def)
  ultimately show "\<not> (\<forall>r \<in> set (todos (snd (seedUserData seedGen leapDay ''bob'' exampleDb))).
         t_category r \<in> set TaskCategory)"
    by auto
next
  have "postTodo ''t2'' ''alice'' dailyBody exampleDb =
     (Json 201 \<lparr>t_id = ''t2'', t_userId = ''alice'', t_title = ''Nap'', t_completed = False,
          t_dayOfWeek = 1, t_category = ''daily'', t_priority = ''medium''\<rparr>,
      exampleDb\<lparr>todos := todos exampleDb @
        [\<lparr>t_id = ''t2'', t_userId = ''alice'', t_title = ''Nap'', t_completed = False,
          t_dayOfWeek = 1, t_category = ''daily'', t_priority = ''medium''\<rparr>]\<rparr>)"
    by (simp add: postTodo_def insertTodoSchema_def dailyBody_def noFields_def createTodo_def
        insertRow_def newTodo_def withDefault_def storableTodo_def storableOpt_def
        storable_def int4_def exampleDb_def)
  then have "''daily'' \<in> set (map t_category
       (todos (snd (postTodo ''t2'' ''alice'' dailyBody exampleDb))))"
    by simp
  moreover have "''daily'' \<notin> set TaskCategory"
    by (simp add: TaskCategory_def)
  ultimately show "\<not> (\<forall>r \<in> set (todos (snd (postTodo ''t2'' ''alice'' dailyBody exampleDb))).
         t_category r \<in> set TaskCategory)"
    by auto
qed

text \<open>
  C9, amended. The category of a todo is free text. A todo written by the create path
  (the storage method, and the \<open>POST\<close> handler in front of it) is a row of the table
  whose category is the text of the request, and \<open>other\<close> when the request names none.
  The seeding procedure, when it runs on a user without todos and with identifiers that
  do not collide, appends eleven todos, eight of category \<open>daily\<close> followed by three of
  category \<open>monthly\<close>.
\<close>

theorem todo_category_is_given_text_or_other:
  "(\<forall>r d'. createTodo g todo d = (Inr r, d') \<longrightarrow>
       r \<in> set (todos d') \<and>
       t_category r = (case ti_category todo of None \<Rightarrow> ''other'' | Some c \<Rightarrow> c))
   \<and> (\<forall>n r d'. postTodo g userId body d = (Json n r, d') \<longrightarrow>
       r \<in> set (todos d') \<and>
       t_category r = (case tf_category body of None \<Rightarrow> ''other'' | Some c \<Rightarrow> c))
   \<and> (getTodos userId d = [] \<and> userId \<in> set (map u_id (users d)) \<and>
       distinct (map gen [0..<11]) \<and>
       set (map gen [0..<11]) \<inter> set (map t_id (todos d)) = {} \<and>
       distinct (map gen [11..<31]) \<and>
       set (map gen [11..<31]) \<inter> set (map s_id (scheduleItems d)) = {} \<and>
       distinct (map gen [31..<34]) \<and>
       set (map gen [31..<34]) \<inter> set (map a_id (assignments d)) = {} \<longrightarrow>
       (\<exists>T. todos (snd (seedUserData gen today userId d)) = todos d @ T \<and>
          map t_category T =
            [''daily'', ''daily'', ''daily'', ''daily'', ''daily'', ''daily'', ''daily'',
             ''daily'', ''monthly'', ''monthly'', ''monthly'']))"
proof (intro conjI allI impI)
  fix r d' assume c: "createTodo g todo d = (Inr r, d')"
  then show "r \<in> set (todos d')"
    by (simp add: createTodo_Inr)
  from c show "t_category r = (case ti_category todo of None \<Rightarrow> ''other'' | Some c \<Rightarrow> c)"
    by (simp add: createTodo_Inr newTodo_def withDefault_def)
next
  fix n r d' assume p: "postTodo g userId body d = (Json n r, d')"
  from postTodo_category [OF p] show "r \<in> set (todos d')" by simp
  from postTodo_category [OF p]
  show "t_category r = (case tf_category body of None \<Rightarrow> ''other'' | Some c \<Rightarrow> c)" by simp
next
  assume h: "getTodos userId d = [] \<and> userId \<in> set (map u_id (users d)) \<and>
       distinct (map gen [0..<11]) \<and>
       set (map gen [0..<11]) \<inter> set (map t_id (todos d)) = {} \<and>
       distinct (map gen [11..<31]) \<and>
       set (map gen [11..<31]) \<inter> set (map s_id (scheduleItems d)) = {} \<and>
       distinct (map gen [31..<34]) \<and>
       set (map gen [31..<34]) \<inter> set (map a_id (assignments d)) = {}"
  let ?T = "map (\<lambda>(j, x). newTodo (gen j) (x userId)) (zip [0..<11] defaultTodos)"
  from h have h1: "getTodos userId d = []" and h2: "userId \<in> set (map u_id (users d))"
    and h3: "distinct (map gen [0..<11])"
    and h4: "set (map gen [0..<11]) \<inter> set (map t_id (todos d)) = {}"
    and h5: "distinct (map gen [11..<31])"
    and h6: "set (map gen [11..<31]) \<inter> set (map s_id (scheduleItems d)) = {}"
    and h7: "distinct (map gen [31..<34])"
    and h8: "set (map gen [31..<34]) \<inter> set (map a_id (assignments d)) = {}"
    by blast+
  have run: "todos (snd (seedUserData gen today userId d)) = todos d @ ?T"
    by (simp add: seedUserData_fresh [OF h1 h2 h3 disjoint_fresh [OF h4] h5
          disjoint_fresh [OF h6] h7 disjoint_fresh [OF h8]])
  show "\<exists>T. todos (snd (seedUserData gen today userId d)) = todos d @ T \<and>
          map t_category T =
            [''daily'', ''daily'', ''daily'', ''daily'', ''daily'', ''daily'', ''daily'',
             ''daily'', ''monthly'', ''monthly'', ''monthly'']"
    by (intro exI [of _ ?T] conjI run seeded_todo_categories)
qed

theorem todo_category_is_given_text_or_other_witness:
  "(\<exists>r d'. createTodo ''t2'' readTodo exampleDb = (Inr r, d') \<and> r \<in> set (todos d')
        \<and> t_category r = ''other'')
   \<and> (\<exists>r d'. postTodo ''t2'' ''alice'' dailyBody exampleDb = (Json 201 r, d')
        \<and> r \<in> set (todos d') \<and> t_category r = ''daily'')
   \<and> getTodos ''bob'' exampleDb = [] \<and> ''bob'' \<in> set (map u_id (users exampleDb))
   \<and> distinct (map seedGen [0..<11])
   \<and> set (map seedGen [0..<11]) \<inter> set (map t_id (todos exampleDb)) = {}
   \<and> distinct (map seedGen [11..<31])
   \<and> set (map seedGen [11..<31]) \<inter> set (map s_id (scheduleItems exampleDb)) = {}
   \<and> distinct (map seedGen [31..<34])
   \<and> set (map seedGen [31..<34]) \<inter> set (map a_id (assignments exampleDb)) = {}
   \<and> (\<exists>T. todos (snd (seedUserData seedGen leapDay ''bob'' exampleDb)) = todos exampleDb @ T
        \<and> map t_category T =
            [''daily'', ''daily'', ''daily'', ''daily'', ''daily'', ''daily'', ''daily'',
             ''daily'', ''monthly'', ''monthly'', ''monthly''])"
proof -
  note inst = todo_category_is_given_text_or_other
    [where g = "''t2''" and todo = readTodo and d = exampleDb and userId = "''alice''"
       and body = dailyBody]
  note seed = todo_category_is_given_text_or_other
    [where d = exampleDb and userId = "''bob''" and gen = seedGen and today = leapDay]
  note h = seedGen_fresh_in_exampleDb
  have "createTodo ''t2'' readTodo exampleDb = (Inr (newTodo ''t2'' readTodo),
      exampleDb\<lparr>todos := todos exampleDb @ [newTodo ''t2'' readTodo]\<rparr>)"
    by (rule createTodo_ok)
      (simp_all add: readTodo_def storableTodo_def storableOpt_def storable_def int4_def
        exampleDb_def)
  then obtain r d' where c: "createTodo ''t2'' readTodo exampleDb = (Inr r, d')"
    by blast
  with inst [THEN conjunct1] have "r \<in> set (todos d')"
    and "t_category r = (case ti_category readTodo of None \<Rightarrow> ''other'' | Some c \<Rightarrow> c)"
    by blast+
  with c have 1: "\<exists>r d'. createTodo ''t2'' readTodo exampleDb = (Inr r, d')
        \<and> r \<in> set (todos d') \<and> t_category r = ''other''"
    by (auto simp: readTodo_def)
  have "postTodo ''t2'' ''alice'' dailyBody exampleDb =
     (Json 201 \<lparr>t_id = ''t2'', t_userId = ''alice'', t_title = ''Nap'', t_completed = False,
          t_dayOfWeek = 1, t_category = ''daily'', t_priority = ''medium''\<rparr>,
      exampleDb\<lparr>todos := todos exampleDb @
        [\<lparr>t_id = ''t2'', t_userId = ''alice'', t_title = ''Nap'', t_completed = False,
          t_dayOfWeek = 1, t_category = ''daily'', t_priority = ''medium''\<rparr>]\<rparr>)"
    by (simp add: postTodo_def insertTodoSchema_def dailyBody_def noFields_def createTodo_def
        insertRow_def newTodo_def withDefault_def storableTodo_def storableOpt_def
        storable_def int4_def exampleDb_def)
  then obtain r2 d2 where p: "postTodo ''t2'' ''alice'' dailyBody exampleDb = (Json 201 r2, d2)"
    by blast
  with inst [THEN conjunct2, THEN conjunct1] have "r2 \<in> set (todos d2)"
    and "t_category r2 = (case tf_category dailyBody of None \<Rightarrow> ''other'' | Some c \<Rightarrow> c)"
    by blast+
  with p have 2: "\<exists>r d'. postTodo ''t2'' ''alice'' dailyBody exampleDb = (Json 201 r, d')
        \<and> r \<in> set (todos d') \<and> t_category r = ''daily''"
    by (auto simp: dailyBody_def noFields_def)
  from seed [THEN conjunct2, THEN conjunct2] h
  have 3: "\<exists>T. todos (snd (seedUserData seedGen leapDay ''bob'' exampleDb)) = todos exampleDb @ T
        \<and> map t_category T =
            [''daily'', ''daily'', ''daily'', ''daily'', ''daily'', ''daily'', ''daily'',
             ''daily'', ''monthly'', ''monthly'', ''monthly'']"
    by (elim impE) (intro conjI, assumption+)
  from 1 2 h 3 show ?thesis by (intro conjI)
qed

section \<open>Users\<close>

lemma filter_id_replaced:
  assumes "distinct (map rid rows)" and "e \<in> set rows" and "rid r = rid e"
  shows "filter (\<lambda>u. rid u = rid e) (map (\<lambda>u. if rid u = rid e then r else u) rows) = [r]"
  using assms
proof (induction rows)
  case Nil
  then show ?case by simp
next
  case (Cons x rows)
  show ?case
  proof (cases "x = e")
    case True
    with Cons.prems have "rid e \<notin> rid ` set rows" by simp
    then have "\<forall>u \<in> set rows. rid u \<noteq> rid e" by (metis imageI)
    then have "filter (\<lambda>u. rid u = rid e) (map (\<lambda>u. if rid u = rid e then r else u) rows) = []"
      by (simp add: filter_empty_conv)
    with True Cons.prems(3) show ?thesis by simp
  next
    case False
    with Cons.prems have e: "e \<in> set rows" and d: "distinct (map rid rows)" by auto
    from Cons.prems(1) e have "rid x \<noteq> rid e" by auto
    with Cons.IH [OF d e Cons.prems(3)] show ?thesis by simp
  qed
qed

lemma distinct_ids_replaced:
  assumes "distinct (map rid rows)" and "rid r = i"
  shows "distinct (map rid (map (\<lambda>u. if rid u = i then r else u) rows))"
proof -
  have eq: "map rid (map (\<lambda>u. if rid u = i then r else u) rows) = map rid rows"
    using assms(2) by (induction rows) auto
  show ?thesis unfolding eq by (rule assms(1))
qed

lemma firstRow_filter_id:
  assumes "firstRow (filter (\<lambda>u. rid u = i) rows) = Some old"
  shows "old \<in> set rows \<and> rid old = i"
  using firstRow_filter_Some [OF assms] by simp

text \<open>What a successful \<open>upsertUser\<close> returns and stores, by the two cases of the conflict.\<close>

lemma upsertUser_inserts:
  assumes "firstRow (filter (\<lambda>u. u_id u = withDefault (uu_id data) g) (users d)) = None"
    and "upsertUser g dbNow jsNow data d = (Inr r, d')"
  shows "r = \<lparr>u_id = withDefault (uu_id data) g,
              u_email = withDefault (uu_email data) None,
              u_firstName = withDefault (uu_firstName data) None,
              u_lastName = withDefault (uu_lastName data) None,
              u_profileImageUrl = withDefault (uu_profileImageUrl data) None,
              u_createdAt = withDefault (uu_createdAt data) (Some dbNow),
              u_updatedAt = withDefault (uu_updatedAt data) (Some dbNow)\<rparr>
         \<and> d' = d\<lparr>users := users d @ [r]\<rparr>"
  using assms by (auto simp: upsertUser_def Let_def split: if_splits)

lemma upsertUser_updates:
  assumes "firstRow (filter (\<lambda>u. u_id u = withDefault (uu_id data) g) (users d)) = Some old"
    and "upsertUser g dbNow jsNow data d = (Inr r, d')"
  shows "r = \<lparr>u_id = withDefault (uu_id data) g,
              u_email = withDefault (uu_email data) (u_email old),
              u_firstName = withDefault (uu_firstName data) (u_firstName old),
              u_lastName = withDefault (uu_lastName data) (u_lastName old),
              u_profileImageUrl = withDefault (uu_profileImageUrl data) (u_profileImageUrl old),
              u_createdAt = withDefault (uu_createdAt data) (u_createdAt old),
              u_updatedAt = Some jsNow\<rparr>
         \<and> d' = d\<lparr>users := map (\<lambda>u. if u_id u = withDefault (uu_id data) g then r else u)
                               (users d)\<rparr>"
  using assms by (auto simp: upsertUser_def Let_def split: if_splits)

lemma upsertUser_one_row:
  assumes pk: "distinct (map u_id (users d))"
    and run: "upsertUser g dbNow jsNow data d = (Inr r, d')"
  shows "distinct (map u_id (users d')) \<and> u_id r = withDefault (uu_id data) g \<and>
     filter (\<lambda>u. u_id u = withDefault (uu_id data) g) (users d') = [r]"
proof (cases "firstRow (filter (\<lambda>u. u_id u = withDefault (uu_id data) g) (users d))")
  case None
  let ?i = "withDefault (uu_id data) g"
  from upsertUser_inserts [OF None run]
  have r: "u_id r = ?i" and d': "d' = d\<lparr>users := users d @ [r]\<rparr>"
    by simp_all
  from None have e: "filter (\<lambda>u. u_id u = ?i) (users d) = []"
    by (simp add: firstRow_def split: list.splits)
  then have "\<forall>u \<in> set (users d). u_id u \<noteq> ?i"
    by (simp add: filter_empty_conv)
  then have "?i \<notin> set (map u_id (users d))"
    by auto
  with pk r d' e show ?thesis by simp
next
  case (Some old)
  let ?i = "withDefault (uu_id data) g"
  from upsertUser_updates [OF Some run]
  have r: "u_id r = ?i"
    and d': "d' = d\<lparr>users := map (\<lambda>u. if u_id u = ?i then r else u) (users d)\<rparr>"
    by simp_all
  from firstRow_filter_id [OF Some] have old: "old \<in> set (users d)" "u_id old = ?i"
    by simp_all
  from filter_id_replaced [OF pk old(1), of r] r old(2)
  have "filter (\<lambda>u. u_id u = ?i) (map (\<lambda>u. if u_id u = ?i then r else u) (users d)) = [r]"
    by simp
  with distinct_ids_replaced [OF pk r] r d' show ?thesis by simp
qed

text \<open>
  C7, as stated, fails twice. Two upserts of an existing user that differ in the first
  name, the second made while the server clock still shows the reading of the first
  (7000), both succeed, and the \<open>updatedAt\<close> after the second call is not later than
  the \<open>updatedAt\<close> after the first. And when the first upsert carries the last name
  \<open>Smith\<close> and the second is \<open>{id: "alice", firstName: "Alicia"}\<close>, without a last name
  and without an email, the row keeps the last name and the email of the first call:
  its mutable fields are not those of the second call.
\<close>

theorem upsertUser_twice_same_reading_and_omitted_field:
  "(\<exists>r1 d1 r2 d2.
      upsertUser ''g1'' 7001 7000 aliceFirst exampleDb = (Inr r1, d1)
      \<and> upsertUser ''g2'' 7002 7000 aliceSecond d1 = (Inr r2, d2)
      \<and> u_firstName r1 = Some ''Alice'' \<and> u_firstName r2 = Some ''Alicia''
      \<and> u_updatedAt r1 = Some 7000 \<and> u_updatedAt r2 = Some 7000
      \<and> \<not> (\<exists>t1 t2. u_updatedAt r1 = Some t1 \<and> u_updatedAt r2 = Some t2 \<and> t1 < t2))
   \<and> (\<exists>r1 d1 r2 d2.
      upsertUser ''g1'' 7001 7000 smithFirst exampleDb = (Inr r1, d1)
      \<and> upsertUser ''g2'' 8001 8000 aliciaOnly d1 = (Inr r2, d2)
      \<and> uu_lastName smithFirst = Some (Some ''Smith'') \<and> u_lastName r1 = Some ''Smith''
      \<and> uu_lastName aliciaOnly = None \<and> uu_email aliciaOnly = None
      \<and> u_firstName r2 = Some ''Alicia'' \<and> u_lastName r2 = Some ''Smith''
      \<and> u_email r2 = Some ''alice@example.org'')"
proof (rule conjI)
  let ?r1 = "\<lparr>u_id = ''alice'', u_email = Some ''alice@example.org'',
      u_firstName = Some ''Alice'', u_lastName = None, u_profileImageUrl = None,
      u_createdAt = Some 1000, u_updatedAt = Some 7000\<rparr>"
  let ?r2 = "?r1\<lparr>u_firstName := Some ''Alicia''\<rparr>"
  let ?bob = "\<lparr>u_id = ''bob'', u_email = None, u_firstName = None, u_lastName = None,
      u_profileImageUrl = None, u_createdAt = Some 2000, u_updatedAt = Some 2000\<rparr>"
  have 1: "upsertUser ''g1'' 7001 7000 aliceFirst exampleDb =
      (Inr ?r1, exampleDb\<lparr>users := [?r1, ?bob]\<rparr>)"
    by (simp add: upsertUser_def Let_def aliceFirst_def withDefault_def firstRow_def
        emailTaken_def exampleDb_def)
  have 2: "upsertUser ''g2'' 7002 7000 aliceSecond (exampleDb\<lparr>users := [?r1, ?bob]\<rparr>) =
      (Inr ?r2, exampleDb\<lparr>users := [?r2, ?bob]\<rparr>)"
    by (simp add: upsertUser_def Let_def aliceSecond_def aliceFirst_def withDefault_def
        firstRow_def emailTaken_def exampleDb_def)
  show "\<exists>r1 d1 r2 d2.
      upsertUser ''g1'' 7001 7000 aliceFirst exampleDb = (Inr r1, d1)
      \<and> upsertUser ''g2'' 7002 7000 aliceSecond d1 = (Inr r2, d2)
      \<and> u_firstName r1 = Some ''Alice'' \<and> u_firstName r2 = Some ''Alicia''
      \<and> u_updatedAt r1 = Some 7000 \<and> u_updatedAt r2 = Some 7000
      \<and> \<not> (\<exists>t1 t2. u_updatedAt r1 = Some t1 \<and> u_updatedAt r2 = Some t2 \<and> t1 < t2)"
    by (rule exI [of _ ?r1], rule exI [of _ "exampleDb\<lparr>users := [?r1, ?bob]\<rparr>"],
        rule exI [of _ ?r2], rule exI [of _ "exampleDb\<lparr>users := [?r2, ?bob]\<rparr>"])
      (simp add: 1 2)
next
  let ?r1 = "\<lparr>u_id = ''alice'', u_email = Some ''alice@example.org'',
      u_firstName = Some ''Alice'', u_lastName = Some ''Smith'', u_profileImageUrl = None,
      u_createdAt = Some 1000, u_updatedAt = Some 7000\<rparr>"
  let ?r2 = "?r1\<lparr>u_firstName := Some ''Alicia'', u_updatedAt := Some 8000\<rparr>"
  let ?bob = "\<lparr>u_id = ''bob'', u_email = None, u_firstName = None, u_lastName = None,
      u_profileImageUrl = None, u_createdAt = Some 2000, u_updatedAt = Some 2000\<rparr>"
  have 1: "upsertUser ''g1'' 7001 7000 smithFirst exampleDb =
      (Inr ?r1, exampleDb\<lparr>users := [?r1, ?bob]\<rparr>)"
    by (simp add: upsertUser_def Let_def smithFirst_def aliceFirst_def withDefault_def
        firstRow_def emailTaken_def exampleDb_def)
  have 2: "upsertUser ''g2'' 8001 8000 aliciaOnly (exampleDb\<lparr>users := [?r1, ?bob]\<rparr>) =
      (Inr ?r2, exampleDb\<lparr>users := [?r2, ?bob]\<rparr>)"
    by (simp add: upsertUser_def Let_def aliciaOnly_def withDefault_def firstRow_def
        emailTaken_def exampleDb_def)
  have 3: "uu_lastName smithFirst = Some (Some ''Smith'')" "uu_lastName aliciaOnly = None"
    "uu_email aliciaOnly = None"
    by (simp_all add: smithFirst_def aliceFirst_def aliciaOnly_def)
  show "\<exists>r1 d1 r2 d2.
      upsertUser ''g1'' 7001 7000 smithFirst exampleDb = (Inr r1, d1)
      \<and> upsertUser ''g2'' 8001 8000 aliciaOnly d1 = (Inr r2, d2)
      \<and> uu_lastName smithFirst = Some (Some ''Smith'') \<and> u_lastName r1 = Some ''Smith''
      \<and> uu_lastName aliciaOnly = None \<and> uu_email aliciaOnly = None
      \<and> u_firstName r2 = Some ''Alicia'' \<and> u_lastName r2 = Some ''Smith''
      \<and> u_email r2 = Some ''alice@example.org''"
    by (rule exI [of _ ?r1], rule exI [of _ "exampleDb\<lparr>users := [?r1, ?bob]\<rparr>"],
        rule exI [of _ ?r2], rule exI [of _ "exampleDb\<lparr>users := [?r2, ?bob]\<rparr>"])
      (simp add: 1 2 3)
qed

text \<open>
  C7, amended. On a \<open>users\<close> table that satisfies its primary key, two successful
  upserts with the same user id leave exactly one row of that id; in it every field
  that the second call supplies holds the second call's value and every other field
  holds the value it had after the first call; its \<open>updatedAt\<close> is the reading of the
  server clock taken by the second call, which is later than the \<open>updatedAt\<close> after
  the first call exactly when that reading is later than the stored value.
\<close>

theorem upsertUser_twice_one_row_second_values:
  assumes "distinct (map u_id (users d))"
    and "uu_id data1 = Some i" and "uu_id data2 = Some i"
    and "upsertUser g1 dbNow1 jsNow1 data1 d = (Inr r1, d1)"
    and "upsertUser g2 dbNow2 jsNow2 data2 d1 = (Inr r2, d2)"
  shows "filter (\<lambda>u. u_id u = i) (users d2) = [r2]
    \<and> changesOnly (uu_email data2) (u_email r1) (u_email r2)
    \<and> changesOnly (uu_firstName data2) (u_firstName r1) (u_firstName r2)
    \<and> changesOnly (uu_lastName data2) (u_lastName r1) (u_lastName r2)
    \<and> changesOnly (uu_profileImageUrl data2) (u_profileImageUrl r1) (u_profileImageUrl r2)
    \<and> changesOnly (uu_createdAt data2) (u_createdAt r1) (u_createdAt r2)
    \<and> u_updatedAt r2 = Some jsNow2
    \<and> (\<forall>t1. u_updatedAt r1 = Some t1 \<longrightarrow>
          ((\<exists>t2. u_updatedAt r2 = Some t2 \<and> t1 < t2) \<longleftrightarrow> t1 < jsNow2))"
proof -
  have i1: "withDefault (uu_id data1) g1 = i" and i2: "withDefault (uu_id data2) g2 = i"
    using assms(2,3) by (simp_all add: withDefault_def)
  from upsertUser_one_row [OF assms(1,4)] i1
  have pk1: "distinct (map u_id (users d1))"
    and one1: "filter (\<lambda>u. u_id u = i) (users d1) = [r1]"
    by simp_all
  from one1 i2
  have old: "firstRow (filter (\<lambda>u. u_id u = withDefault (uu_id data2) g2) (users d1)) = Some r1"
    by (simp add: firstRow_def)
  from upsertUser_updates [OF old assms(5)]
  have r2: "r2 = \<lparr>u_id = withDefault (uu_id data2) g2,
              u_email = withDefault (uu_email data2) (u_email r1),
              u_firstName = withDefault (uu_firstName data2) (u_firstName r1),
              u_lastName = withDefault (uu_lastName data2) (u_lastName r1),
              u_profileImageUrl = withDefault (uu_profileImageUrl data2) (u_profileImageUrl r1),
              u_createdAt = withDefault (uu_createdAt data2) (u_createdAt r1),
              u_updatedAt = Some jsNow2\<rparr>"
    by simp
  from upsertUser_one_row [OF pk1 assms(5)] i2
  have one2: "filter (\<lambda>u. u_id u = i) (users d2) = [r2]"
    by simp
  have f: "changesOnly (uu_email data2) (u_email r1) (u_email r2)"
    "changesOnly (uu_firstName data2) (u_firstName r1) (u_firstName r2)"
    "changesOnly (uu_lastName data2) (u_lastName r1) (u_lastName r2)"
    "changesOnly (uu_profileImageUrl data2) (u_profileImageUrl r1) (u_profileImageUrl r2)"
    "changesOnly (uu_createdAt data2) (u_createdAt r1) (u_createdAt r2)"
    by (simp_all add: r2 changesOnly_withDefault)
  have t: "u_updatedAt r2 = Some jsNow2"
    by (simp add: r2)
  then have later: "\<forall>t1. u_updatedAt r1 = Some t1 \<longrightarrow>
          ((\<exists>t2. u_updatedAt r2 = Some t2 \<and> t1 < t2) \<longleftrightarrow> t1 < jsNow2)"
    by simp
  show ?thesis
    by (intro conjI one2 f t later)
qed

theorem upsertUser_twice_one_row_second_values_witness:
  "distinct (map u_id (users exampleDb)) \<and> uu_id aliceFirst = Some ''alice''
   \<and> uu_id aliceSecond = Some ''alice''
   \<and> (\<exists>r1 d1 r2 d2.
         upsertUser ''g1'' 7001 7000 aliceFirst exampleDb = (Inr r1, d1)
         \<and> upsertUser ''g2'' 7006 7005 aliceSecond d1 = (Inr r2, d2)
         \<and> filter (\<lambda>u. u_id u = ''alice'') (users d2) = [r2]
         \<and> u_firstName r2 = Some ''Alicia'' \<and> u_updatedAt r1 = Some 7000
         \<and> u_updatedAt r2 = Some 7005)"
proof -
  let ?r1 = "\<lparr>u_id = ''alice'', u_email = Some ''alice@example.org'',
      u_firstName = Some ''Alice'', u_lastName = None, u_profileImageUrl = None,
      u_createdAt = Some 1000, u_updatedAt = Some 7000\<rparr>"
  let ?r2 = "?r1\<lparr>u_firstName := Some ''Alicia'', u_updatedAt := Some 7005\<rparr>"
  let ?bob = "\<lparr>u_id = ''bob'', u_email = None, u_firstName = None, u_lastName = None,
      u_profileImageUrl = None, u_createdAt = Some 2000, u_updatedAt = Some 2000\<rparr>"
  let ?d1 = "exampleDb\<lparr>users := [?r1, ?bob]\<rparr>"
  let ?d2 = "exampleDb\<lparr>users := [?r2, ?bob]\<rparr>"
  have h: "distinct (map u_id (users exampleDb))" "uu_id aliceFirst = Some ''alice''"
    "uu_id aliceSecond = Some ''alice''"
    by (simp_all add: exampleDb_def aliceFirst_def aliceSecond_def)
  have 1: "upsertUser ''g1'' 7001 7000 aliceFirst exampleDb = (Inr ?r1, ?d1)"
    by (simp add: upsertUser_def Let_def aliceFirst_def withDefault_def firstRow_def
        emailTaken_def exampleDb_def)
  have 2: "upsertUser ''g2'' 7006 7005 aliceSecond ?d1 = (Inr ?r2, ?d2)"
    by (simp add: upsertUser_def Let_def aliceSecond_def aliceFirst_def withDefault_def
        firstRow_def emailTaken_def exampleDb_def)
  note inst = upsertUser_twice_one_row_second_values [OF h 1 2]
  have 3: "filter (\<lambda>u. u_id u = ''alice'') (users ?d2) = [?r2]"
    by (rule inst [THEN conjunct1])
  have "changesOnly (uu_firstName aliceSecond) (u_firstName ?r1) (u_firstName ?r2)"
    by (rule inst [THEN conjunct2, THEN conjunct2, THEN conjunct1])
  then have 4: "u_firstName ?r2 = Some ''Alicia''"
    by (simp add: changesOnly_def aliceSecond_def)
  have 5: "u_updatedAt ?r2 = Some 7005"
    by (rule inst [THEN conjunct2, THEN conjunct2, THEN conjunct2, THEN conjunct2,
          THEN conjunct2, THEN conjunct2, THEN conjunct1])
  have 6: "u_updatedAt ?r1 = Some 7000" by simp
  have "\<exists>r1 d1 r2 d2.
         upsertUser ''g1'' 7001 7000 aliceFirst exampleDb = (Inr r1, d1)
         \<and> upsertUser ''g2'' 7006 7005 aliceSecond d1 = (Inr r2, d2)
         \<and> filter (\<lambda>u. u_id u = ''alice'') (users d2) = [r2]
         \<and> u_firstName r2 = Some ''Alicia'' \<and> u_updatedAt r1 = Some 7000
         \<and> u_updatedAt r2 = Some 7005"
    by (rule exI [of _ ?r1], rule exI [of _ ?d1], rule exI [of _ ?r2], rule exI [of _ ?d2])
      (intro conjI 1 2 3 4 5 6)
  with h show ?thesis by (intro conjI)
qed

section \<open>The primary keys are invariants\<close>

text \<open>
  The theorems above assume that the ids of a table are distinct. Every statement of the
  storage layer keeps them so, whether it succeeds or throws.
\<close>

lemma insertRow_distinct:
  assumes "distinct (map rid rows)" and "insertRow rid owner uids row rows = Inr rows'"
  shows "distinct (map rid rows')"
  using assms by (auto simp: insertRow_def split: if_splits)

lemma updateRows_scoped_distinct:
  assumes pk: "distinct (map rid rows)"
    and run: "updateRows rid owner uids (scoped rid owner i w) f rows = Inr (hit, rows')"
  shows "distinct (map rid rows')"
proof (cases "filter (scoped rid owner i w) rows")
  case Nil
  then have "\<forall>r \<in> set rows. \<not> scoped rid owner i w r"
    by (simp add: filter_empty_conv)
  then have "filter (\<lambda>r. \<not> scoped rid owner i w r) rows = rows"
    by (intro filter_True) simp
  with run Nil have "rows' = rows"
    by (auto simp: updateRows_def)
  with pk show ?thesis by simp
next
  case (Cons e es)
  then have "e \<in> set (filter (scoped rid owner i w) rows)" by simp
  then have e: "e \<in> set rows" and "scoped rid owner i w e" by simp_all
  then have i: "i = rid e" and w: "w = owner e" by (simp_all add: scoped_def)
  from run have own: "updateRows rid owner uids (scoped rid owner (rid e) (owner e)) f rows
      = Inr (hit, rows')"
    by (simp add: i w)
  then have rows': "rows' = filter (\<lambda>r. r \<noteq> e) rows @ [f e]"
    and ok: "rid (f e) = rid e \<or> rid (f e) \<notin> set (map rid rows)"
    unfolding updateRows_own [OF pk e] by (auto split: if_splits)
  show ?thesis unfolding rows' by (rule distinct_moved [OF pk e ok])
qed

lemma todos_primary_key_kept:
  assumes "distinct (map t_id (todos d))"
  shows "distinct (map t_id (todos (snd (createTodo g todo d))))"
    and "distinct (map t_id (todos (snd (updateTodo i w u d))))"
    and "distinct (map t_id (todos (snd (deleteTodo i w d))))"
proof -
  show "distinct (map t_id (todos (snd (createTodo g todo d))))"
    using assms insertRow_distinct [OF assms, of t_userId "map u_id (users d)" "newTodo g todo"]
    by (auto simp: createTodo_def split: sum.splits)
  show "distinct (map t_id (todos (snd (updateTodo i w u d))))"
  proof (cases "updateRows t_id t_userId (map u_id (users d)) (scoped t_id t_userId i w)
                  (setTodo u) (todos d)")
    case (Inl e)
    with assms show ?thesis by (simp add: updateTodo_def)
  next
    case (Inr res)
    obtain hit rows' where res: "res = (hit, rows')" by (cases res)
    from updateRows_scoped_distinct [OF assms Inr [unfolded res]]
    have "distinct (map t_id rows')" .
    with assms Inr res show ?thesis by (simp add: updateTodo_def)
  qed
  show "distinct (map t_id (todos (snd (deleteTodo i w d))))"
    using assms by (simp add: deleteTodo_eq distinct_map_filter)
qed

lemma scheduleItems_primary_key_kept:
  assumes "distinct (map s_id (scheduleItems d))"
  shows "distinct (map s_id (scheduleItems (snd (createScheduleItem g item d))))"
    and "distinct (map s_id (scheduleItems (snd (updateScheduleItem i w u d))))"
    and "distinct (map s_id (scheduleItems (snd (deleteScheduleItem i w d))))"
proof -
  show "distinct (map s_id (scheduleItems (snd (createScheduleItem g item d))))"
    using assms insertRow_distinct [OF assms, of s_userId "map u_id (users d)" "newScheduleItem g item"]
    by (auto simp: createScheduleItem_def split: sum.splits)
  show "distinct (map s_id (scheduleItems (snd (updateScheduleItem i w u d))))"
  proof (cases "updateRows s_id s_userId (map u_id (users d)) (scoped s_id s_userId i w)
                  (setScheduleItem u) (scheduleItems d)")
    case (Inl e)
    with assms show ?thesis by (simp add: updateScheduleItem_def)
  next
    case (Inr res)
    obtain hit rows' where res: "res = (hit, rows')" by (cases res)
    from updateRows_scoped_distinct [OF assms Inr [unfolded res]]
    have "distinct (map s_id rows')" .
    with assms Inr res show ?thesis by (simp add: updateScheduleItem_def)
  qed
  show "distinct (map s_id (scheduleItems (snd (deleteScheduleItem i w d))))"
    using assms by (simp add: deleteScheduleItem_eq distinct_map_filter)
qed

lemma assignments_primary_key_kept:
  assumes "distinct (map a_id (assignments d))"
  shows "distinct (map a_id (assignments (snd (createAssignment g assignment d))))"
    and "distinct (map a_id (assignments (snd (updateAssignment i w u d))))"
    and "distinct (map a_id (assignments (snd (deleteAssignment i w d))))"
proof -
  show "distinct (map a_id (assignments (snd (createAssignment g assignment d))))"
    using assms insertRow_distinct [OF assms, of a_userId "map u_id (users d)" "newAssignment g assignment"]
    by (auto simp: createAssignment_def split: sum.splits)
  show "distinct (map a_id (assignments (snd (updateAssignment i w u d))))"
  proof (cases "updateRows a_id a_userId (map u_id (users d)) (scoped a_id a_userId i w)
                  (setAssignment u) (assignments d)")
    case (Inl e)
    with assms show ?thesis by (simp add: updateAssignment_def)
  next
    case (Inr res)
    obtain hit rows' where res: "res = (hit, rows')" by (cases res)
    from updateRows_scoped_distinct [OF assms Inr [unfolded res]]
    have "distinct (map a_id rows')" .
    with assms Inr res show ?thesis by (simp add: updateAssignment_def)
  qed
  show "distinct (map a_id (assignments (snd (deleteAssignment i w d))))"
    using assms by (simp add: deleteAssignment_eq distinct_map_filter)
qed

lemma quickTasks_primary_key_kept:
  assumes "distinct (map q_id (quickTasks d))"
  shows "distinct (map q_id (quickTasks (snd (createQuickTask g task d))))"
    and "distinct (map q_id (quickTasks (snd (updateQuickTask i w u d))))"
    and "distinct (map q_id (quickTasks (snd (deleteQuickTask i w d))))"
proof -
  show "distinct (map q_id (quickTasks (snd (createQuickTask g task d))))"
    using assms insertRow_distinct [OF assms, of q_userId "map u_id (users d)" "newQuickTask g task"]
    by (auto simp: createQuickTask_def split: sum.splits)
  show "distinct (map q_id (quickTasks (snd (updateQuickTask i w u d))))"
  proof (cases "updateRows q_id q_userId (map u_id (users d)) (scoped q_id q_userId i w)
                  (setQuickTask u) (quickTasks d)")
    case (Inl e)
    with assms show ?thesis by (simp add: updateQuickTask_def)
  next
    case (Inr res)
    obtain hit rows' where res: "res = (hit, rows')" by (cases res)
    from updateRows_scoped_distinct [OF assms Inr [unfolded res]]
    have "distinct (map q_id rows')" .
    with assms Inr res show ?thesis by (simp add: updateQuickTask_def)
  qed
  show "distinct (map q_id (quickTasks (snd (deleteQuickTask i w d))))"
    using assms by (simp add: deleteQuickTask_eq distinct_map_filter)
qed

lemma users_primary_key_kept:
  assumes "distinct (map u_id (users d))"
  shows "distinct (map u_id (users (snd (upsertUser g dbNow jsNow data d))))"
proof (cases "fst (upsertUser g dbNow jsNow data d)")
  case (Inl e)
  then have "snd (upsertUser g dbNow jsNow data d) = d"
    by (auto simp: upsertUser_def Let_def split: option.splits if_splits)
  with assms show ?thesis by simp
next
  case (Inr r)
  then have "upsertUser g dbNow jsNow data d = (Inr r, snd (upsertUser g dbNow jsNow data d))"
    by (simp add: prod_eq_iff)
  from upsertUser_one_row [OF assms this] show ?thesis by simp
qed

end
